theory Spec2Isabelle
  imports Main
begin

section \<open>JavaScript strings\<close>

text \<open>
  A JavaScript string is a sequence of code units. It is modelled as a HOL \<open>string\<close>, whose
  characters are the code units 0..255 (ASCII and Latin-1); \<open>length\<close> is the \<open>.length\<close> of
  the source. Language tags are matched by \<open>\w+\<close> and therefore consist of ASCII letters,
  digits and the underscore only.
\<close>

definition newline :: char where
  "newline = CHR 0x0A"

text \<open>The character class \<open>\w\<close> of a regular expression: \<open>[A-Za-z0-9_]\<close>.\<close>

definition is_word_char :: "char \<Rightarrow> bool" where
  "is_word_char c = (let n = (of_char c :: nat) in
     (48 \<le> n \<and> n \<le> 57) \<or> (65 \<le> n \<and> n \<le> 90) \<or> n = 95 \<or> (97 \<le> n \<and> n \<le> 122))"

text \<open>
  White space and line terminators removed by \<open>String.prototype.trim\<close>, among the code
  units below 256: TAB, LF, VT, FF, CR, SPACE and NBSP.
\<close>

definition is_js_space :: "char \<Rightarrow> bool" where
  "is_js_space c = (let n = (of_char c :: nat) in (9 \<le> n \<and> n \<le> 13) \<or> n = 32 \<or> n = 160)"

definition trim :: "string \<Rightarrow> string" where
  "trim s = rev (dropWhile is_js_space (rev (dropWhile is_js_space s)))"

text \<open>
  \<open>toLowerCase\<close> on the code units below 256: \<open>A-Z\<close> and the Latin-1 capitals
  (0xC0-0xDE without the multiplication sign 0xD7) move up by 32, everything else stays.
\<close>

definition toLowerCase_char :: "char \<Rightarrow> char" where
  "toLowerCase_char c = (let n = (of_char c :: nat) in
     if (65 \<le> n \<and> n \<le> 90) \<or> (192 \<le> n \<and> n \<le> 222 \<and> n \<noteq> 215)
     then char_of (n + 32) else c)"

definition toLowerCase :: "string \<Rightarrow> string" where
  "toLowerCase s = map toLowerCase_char s"

text \<open>
  \<open>toUpperCase\<close> of one code unit, as \<open>capitalizeFirst\<close> applies it to the first character
  of a language tag: \<open>a-z\<close> move down by 32. A tag is matched by \<open>\w+\<close> (or is the literal
  \<open>text\<close>), so no other letter reaches this function; other code units are left as they are.
\<close>

definition toUpperCase_char :: "char \<Rightarrow> char" where
  "toUpperCase_char c = (let n = (of_char c :: nat) in
     if 97 \<le> n \<and> n \<le> 122 then char_of (n - 32) else c)"

definition startsWith :: "string \<Rightarrow> string \<Rightarrow> bool" where
  "startsWith s p = (take (length p) s = p)"

text \<open>\<open>s.includes(k)\<close>: \<open>k\<close> occurs in \<open>s\<close> as a contiguous substring.\<close>

fun js_includes :: "string \<Rightarrow> string \<Rightarrow> bool" where
  "js_includes [] k = (k = [])"
| "js_includes (c # cs) k = (startsWith (c # cs) k \<or> js_includes cs k)"

text \<open>\<open>s.split('\n')\<close>: the lines of \<open>s\<close>; the result is never empty.\<close>

fun split_lines :: "string \<Rightarrow> string list" where
  "split_lines [] = [[]]"
| "split_lines (c # cs) =
     (if c = newline then [] # split_lines cs
      else (case split_lines cs of
              [] \<Rightarrow> [[c]]
            | l # ls \<Rightarrow> (c # l) # ls))"

text \<open>Decimal rendering of a number inside a template literal.\<close>

definition digit_char :: "nat \<Rightarrow> char" where
  "digit_char d = char_of (48 + d)"

fun show_nat :: "nat \<Rightarrow> string" where
  "show_nat n = (if n < 10 then [digit_char n] else show_nat (n div 10) @ [digit_char (n mod 10)])"

section \<open>Artifacts\<close>

datatype ArtifactType = code | document | visualization | data

record ArtifactMetadata =
  language :: string
  lineCount :: nat

record Artifact =
  artifact_id :: string
  artifact_type :: ArtifactType
  title :: string
  artifact_content :: string
  metadata :: ArtifactMetadata
  createdAt :: nat

subsection \<open>Classification of a language tag\<close>

definition codeLanguages :: "string list" where
  "codeLanguages =
     [''javascript'', ''typescript'', ''python'', ''java'', ''rust'', ''go'', ''cpp'', ''c'',
      ''html'', ''css'', ''jsx'', ''tsx'', ''ruby'', ''php'', ''swift'', ''kotlin'', ''scala'']"

definition vizLanguages :: "string list" where
  "vizLanguages = [''mermaid'', ''graphviz'', ''dot'', ''plantuml'']"

definition dataLanguages :: "string list" where
  "dataLanguages = [''json'', ''yaml'', ''toml'', ''xml'', ''csv'']"

text \<open>\<open>AzureAIProvider.getArtifactType\<close>.\<close>

definition getArtifactType :: "string \<Rightarrow> ArtifactType" where
  "getArtifactType lang_tag =
     (let lang = toLowerCase lang_tag in
      if lang \<in> set codeLanguages then code
      else if lang \<in> set vizLanguages then visualization
      else if lang \<in> set dataLanguages then data
      else document)"

text \<open>\<open>AIService.getArtifactType\<close>: the service carries its own copy of the three tables.\<close>

definition AIService_getArtifactType :: "string \<Rightarrow> ArtifactType" where
  "AIService_getArtifactType lang_tag =
     (let codeLanguages' =
            [''javascript'', ''typescript'', ''python'', ''java'', ''rust'', ''go'', ''cpp'',
             ''c'', ''html'', ''css'', ''jsx'', ''tsx'', ''ruby'', ''php'', ''swift'',
             ''kotlin'', ''scala''];
          vizLanguages' = [''mermaid'', ''graphviz'', ''dot'', ''plantuml''];
          dataLanguages' = [''json'', ''yaml'', ''toml'', ''xml'', ''csv''];
          lang = toLowerCase lang_tag in
      if lang \<in> set codeLanguages' then code
      else if lang \<in> set vizLanguages' then visualization
      else if lang \<in> set dataLanguages' then data
      else document)"

text \<open>\<open>capitalizeFirst\<close>: \<open>str.charAt(0).toUpperCase() + str.slice(1)\<close>.\<close>

definition capitalizeFirst :: "string \<Rightarrow> string" where
  "capitalizeFirst str = (case str of [] \<Rightarrow> [] | c # cs \<Rightarrow> toUpperCase_char c # cs)"

subsection \<open>The fenced-block pattern\<close>

text \<open>
  The pattern is \<open>/```(\w+)?\n([\s\S]*?)```/g\<close>: three backquotes, an optional tag of word
  characters, a line feed, then the shortest text that is followed by three backquotes.
  After the opening fence the greedy \<open>\w+\<close> takes the whole run of word characters; giving
  characters back cannot help, since the next character must be the line feed.
\<close>

definition fence :: string where
  "fence = ''```''"

text \<open>
  The lazy body \<open>([\s\S]*?)```\<close>: the text up to the first closing fence, and the text
  after that fence.
\<close>

fun find_close :: "string \<Rightarrow> (string \<times> string) option" where
  "find_close [] = None"
| "find_close (c # cs) =
     (if startsWith (c # cs) fence then Some ([], drop 3 (c # cs))
      else (case find_close cs of
              None \<Rightarrow> None
            | Some (b, r) \<Rightarrow> Some (c # b, r)))"

text \<open>
  A match that starts at the first character: group 1 (absent when the fence carries no
  tag), group 2, and the text after the match.
\<close>

definition match_here :: "string \<Rightarrow> (string option \<times> string \<times> string) option" where
  "match_here s =
     (if startsWith s fence then
        (let t = drop 3 s;
             w = takeWhile is_word_char t;
             r = dropWhile is_word_char t in
         (case r of
            [] \<Rightarrow> None
          | c # body \<Rightarrow>
              if c = newline then
                (case find_close body of
                   None \<Rightarrow> None
                 | Some (b, rest) \<Rightarrow> Some (if w = [] then None else Some w, b, rest))
              else None))
      else None)"

text \<open>\<open>codeBlockRegex.exec\<close>: the leftmost match in the text not yet consumed.\<close>

fun regex_exec :: "string \<Rightarrow> (string option \<times> string \<times> string) option" where
  "regex_exec [] = None"
| "regex_exec (c # cs) =
     (case match_here (c # cs) of
        Some m \<Rightarrow> Some m
      | None \<Rightarrow> regex_exec cs)"

subsection \<open>Extraction\<close>

text \<open>
  \<open>Date.now()\<close> is an oracle \<open>now\<close>: its \<open>k\<close>-th reading is \<open>now k\<close>. Each artifact reads the
  clock twice, for its identifier and for \<open>createdAt\<close>.
\<close>

definition mk_artifact :: "(nat \<Rightarrow> nat) \<Rightarrow> nat \<Rightarrow> nat \<Rightarrow> string \<Rightarrow> string \<Rightarrow> Artifact" where
  "mk_artifact now k index lang code_text =
     \<lparr> artifact_id = ''artifact-'' @ show_nat (now k) @ ''-'' @ show_nat index,
       artifact_type = getArtifactType lang,
       title = capitalizeFirst lang @ '' Code'',
       artifact_content = code_text,
       metadata = \<lparr> language = lang, lineCount = length (split_lines code_text) \<rparr>,
       createdAt = now (Suc k) \<rparr>"

text \<open>The \<open>while\<close> loop of \<open>extractArtifacts\<close> over the text that \<open>lastIndex\<close> has not passed.\<close>

function extract_loop :: "(nat \<Rightarrow> nat) \<Rightarrow> nat \<Rightarrow> nat \<Rightarrow> string \<Rightarrow> Artifact list" where
  "extract_loop now k index s =
     (case regex_exec s of
        None \<Rightarrow> []
      | Some (tag, body, rest) \<Rightarrow>
          (let lang = (case tag of None \<Rightarrow> ''text'' | Some l \<Rightarrow> l);
               code_text = trim body in
           if length code_text > 10
           then mk_artifact now k index lang code_text # extract_loop now (k + 2) (index + 1) rest
           else extract_loop now k index rest))"
  by pat_completeness auto
termination
proof (relation "measure (\<lambda>(now, k, index, s). length s)")
  have close: "length r < length s" if "find_close s = Some (b, r)" for s b r
    using that
    by (induction s arbitrary: b r) (auto simp: fence_def split: if_splits option.splits)
  have here: "length r < length s" if "match_here s = Some (t, b, r)" for s t b r
  proof -
    from that obtain c body where
      d: "dropWhile is_word_char (drop 3 s) = c # body" and f: "find_close body = Some (b, r)"
      by (auto simp: match_here_def Let_def split: if_splits list.splits option.splits)
    have "length (c # body) \<le> length (drop 3 s)"
      unfolding d [symmetric] by (rule length_dropWhile_le)
    with close [OF f] show ?thesis by simp
  qed
  have exec: "length r < length s" if "regex_exec s = Some (t, b, r)" for s t b r
    using that
  proof (induction s)
    case Nil
    then show ?case by simp
  next
    case (Cons c cs)
    show ?case
    proof (cases "match_here (c # cs)")
      case None
      with Cons have "length r < length cs" by simp
      then show ?thesis by simp
    next
      case (Some m)
      with Cons.prems have "match_here (c # cs) = Some (t, b, r)" by simp
      then show ?thesis by (rule here)
    qed
  qed
  show "wf (measure (\<lambda>(now, k, index, s). length s))" by simp
  show "((now, k + 2, index + 1, rest), now, k, index, s) \<in> measure (\<lambda>(now, k, index, s). length s)"
    if "regex_exec s = Some x2" "(tag, y) = x2" "(body, rest) = y"
    for now k index s x2 tag y body rest xa xb
    using exec [of s tag body rest] that by simp
  show "((now, k, index, rest), now, k, index, s) \<in> measure (\<lambda>(now, k, index, s). length s)"
    if "regex_exec s = Some x2" "(tag, y) = x2" "(body, rest) = y"
    for now k index s x2 tag y body rest xa xb
    using exec [of s tag body rest] that by simp
qed

declare extract_loop.simps [simp del]

text \<open>\<open>AzureAIProvider.extractArtifacts\<close>, with the clock at its \<open>k\<close>-th reading.\<close>

definition extractArtifacts :: "(nat \<Rightarrow> nat) \<Rightarrow> nat \<Rightarrow> string \<Rightarrow> Artifact list" where
  "extractArtifacts now k content_text = extract_loop now k 0 content_text"

subsection \<open>The matches of the pattern and the shape of an artifact\<close>

text \<open>
  The matches of the pattern in a text are the successive results of \<open>exec\<close>, from left to
  right, each starting where the one before ended; a match gives its tag (group 1) and its
  body (group 2). A match consumes at least one character, so a text of length \<open>n\<close> has at
  most \<open>n\<close> of them.
\<close>

fun matches_upto :: "nat \<Rightarrow> string \<Rightarrow> (string option \<times> string) list" where
  "matches_upto 0 s = []"
| "matches_upto (Suc n) s =
     (case regex_exec s of
        None \<Rightarrow> []
      | Some (tag, body, rest) \<Rightarrow> (tag, body) # matches_upto n rest)"

definition pattern_matches :: "string \<Rightarrow> (string option \<times> string) list" where
  "pattern_matches s = matches_upto (length s) s"

definition block_language :: "string option \<times> string \<Rightarrow> string" where
  "block_language blk = (case fst blk of None \<Rightarrow> ''text'' | Some l \<Rightarrow> l)"

definition shape :: "Artifact \<Rightarrow> ArtifactType \<times> string \<times> string \<times> ArtifactMetadata" where
  "shape a = (artifact_type a, title a, artifact_content a, metadata a)"

definition block_shape ::
  "string option \<times> string \<Rightarrow> ArtifactType \<times> string \<times> string \<times> ArtifactMetadata" where
  "block_shape blk =
     (getArtifactType (block_language blk),
      capitalizeFirst (block_language blk) @ '' Code'',
      trim (snd blk),
      \<lparr> language = block_language blk, lineCount = length (split_lines (trim (snd blk))) \<rparr>)"

definition kept :: "string option \<times> string \<Rightarrow> bool" where
  "kept blk = (length (trim (snd blk)) > 10)"

subsection \<open>Texts with fenced blocks\<close>

text \<open>
  The spec speaks of the fenced blocks of a text, tagged with a language identifier. Here
  a text with fenced blocks is written down as what its author meant: a sequence of prose
  and of fenced blocks, where a block is three backquotes, its tag, a line feed, its
  content, and three backquotes. The blocks of such a text are the blocks of the sequence,
  whatever the extractor finds.
\<close>

datatype segment = Prose string | Fenced string string

fun render_segment :: "segment \<Rightarrow> string" where
  "render_segment (Prose p) = p"
| "render_segment (Fenced tag body) = fence @ tag @ [newline] @ body @ fence"

definition render :: "segment list \<Rightarrow> string" where
  "render segs = concat (map render_segment segs)"

fun blocks_of :: "segment list \<Rightarrow> (string option \<times> string) list" where
  "blocks_of [] = []"
| "blocks_of (Prose p # segs) = blocks_of segs"
| "blocks_of (Fenced tag body # segs) =
     (if tag = [] then None else Some tag, body) # blocks_of segs"

text \<open>
  A piece of text is free of fences when no three backquotes in a row begin inside it,
  whatever follows it: with two backquotes appended it contains no fence. A text with
  fenced blocks is plain when its prose and the contents of its blocks are free of fences
  and every tag consists of word characters (an empty tag is no tag).
\<close>

definition fence_free :: "string \<Rightarrow> bool" where
  "fence_free s = (\<not> js_includes (s @ ''``'') fence)"

fun plain_segment :: "segment \<Rightarrow> bool" where
  "plain_segment (Prose p) = fence_free p"
| "plain_segment (Fenced tag body) = (list_all is_word_char tag \<and> fence_free body)"

definition plain :: "segment list \<Rightarrow> bool" where
  "plain segs = list_all plain_segment segs"

text \<open>
  A text whose first block carries the tag \<open>c++\<close>: a block of C++, a line of prose, a block
  of Python and a block without a tag.
\<close>

definition cpp_first :: "segment list" where
  "cpp_first =
     [Fenced ''c++'' ''int main() { return 0; }\<newline>'',
      Prose ''\<newline>The same program in Python:\<newline>'',
      Fenced ''python'' ''import sys\<newline>print(sys.argv)\<newline>sys.exit(0)\<newline>'',
      Prose ''\<newline>and its output:\<newline>'',
      Fenced [] ''usage: prog [options] files\<newline>'']"

section \<open>Providers and model identifiers\<close>

text \<open>
  What the source throws is an \<open>Error\<close> object with its message; a function that can throw
  returns \<open>Inl\<close> of the error.
\<close>

datatype js_error = Error (message: string)

datatype AIProvider = azure | anthropic

text \<open>
  The type \<open>AIModel\<close>: the ten identifiers of the union type, with \<open>-\<close> written as \<open>_\<close>.
\<close>

datatype AIModel =
    claude_3_5_sonnet_20241022
  | claude_3_5_haiku_20241022
  | claude_3_opus_20240229
  | gpt_4o
  | gpt_4o_mini
  | o1_preview
  | o1_mini
  | claude_sonnet_4_5_20250929
  | claude_opus_4_20250514
  | claude_haiku_4_5

text \<open>
  The exported table \<open>MODEL_MAPPING\<close>: for each family its \<open>azure\<close> and its \<open>anthropic\<close>
  identifier, in this order.
\<close>

definition MODEL_MAPPING :: "(string \<times> AIModel \<times> AIModel) list" where
  "MODEL_MAPPING =
     [(''sonnet'', claude_3_5_sonnet_20241022, claude_sonnet_4_5_20250929),
      (''haiku'', claude_3_5_haiku_20241022, claude_haiku_4_5),
      (''opus'', claude_3_opus_20240229, claude_opus_4_20250514)]"

text \<open>
  \<open>AIService.mapModelToAnthropic\<close> and \<open>mapModelToAzure\<close>: a lookup in a private table,
  \<open>mapping[model] || model\<close>. Every value of the tables is a non-empty string, so \<open>||\<close>
  takes the model itself exactly when the table has no entry.
\<close>

definition mapModelToAnthropic :: "AIModel \<Rightarrow> AIModel" where
  "mapModelToAnthropic m =
     (let mapping = [(claude_3_5_sonnet_20241022, claude_sonnet_4_5_20250929),
                     (claude_3_5_haiku_20241022, claude_haiku_4_5),
                     (claude_3_opus_20240229, claude_opus_4_20250514)] in
      case map_of mapping m of Some m' \<Rightarrow> m' | None \<Rightarrow> m)"

definition mapModelToAzure :: "AIModel \<Rightarrow> AIModel" where
  "mapModelToAzure m =
     (let mapping = [(claude_sonnet_4_5_20250929, claude_3_5_sonnet_20241022),
                     (claude_haiku_4_5, claude_3_5_haiku_20241022),
                     (claude_opus_4_20250514, claude_3_opus_20240229)] in
      case map_of mapping m of Some m' \<Rightarrow> m' | None \<Rightarrow> m)"

text \<open>\<open>AIService.mapModel\<close> is the identity.\<close>

definition mapModel :: "AIModel \<Rightarrow> AIModel" where
  "mapModel m = m"

section \<open>Mini-synthesis in the exploration engine\<close>

text \<open>
  The integration guide gives the code that \<open>ExplorationEngine\<close> runs after a stage:
  the trigger inside \<open>executeStage\<close> and the method \<open>createMiniSynthesis\<close>. The synthesis
  service and the flag \<open>isSummary\<close> are not defined there; they are parameters here.
\<close>

datatype StageStatus = pending | running | complete | failed

record Stage =
  stage_status :: StageStatus

text \<open>
  The report of the synthesis service. Its quality score is a floating-point number that the
  engine only logs; it is left out.
\<close>

record SynthesisReport =
  summary :: string
  connections :: string
  patterns :: string
  contradictions :: string
  forwardLook :: string
  keyInsights :: "string list"

record ExplorationConfig =
  enableMiniSynthesis :: bool
  synthesisInterval :: int

record 'i ExplorationContext =
  previousStages :: "Stage list"
  currentStage :: int
  richInsights :: "'i list option"
  insights :: "string list"
  synthesisCount :: "nat option"

text \<open>
  \<open>a % b === 0\<close> on integers: the remainder of JavaScript is \<open>NaN\<close> when \<open>b\<close> is zero,
  and otherwise has the sign of \<open>a\<close> and the magnitude of \<open>|a| mod |b|\<close>.
\<close>

definition js_rem :: "int \<Rightarrow> int \<Rightarrow> int option" where
  "js_rem a b = (if b = 0 then None else Some (sgn a * (\<bar>a\<bar> mod \<bar>b\<bar>)))"

text \<open>
  \<open>xs.slice(start)\<close>: a negative \<open>start\<close> counts from the end, and both ends are clamped.
\<close>

definition slice_from :: "'a list \<Rightarrow> int \<Rightarrow> 'a list" where
  "slice_from xs start =
     (let len = int (length xs);
          k = (if start < 0 then max (len + start) 0 else min start len)
      in drop (nat k) xs)"

definition insights_or_empty :: "'i ExplorationContext \<Rightarrow> 'i list" where
  "insights_or_empty ctx = (case richInsights ctx of None \<Rightarrow> [] | Some r \<Rightarrow> r)"

definition synthesis_count :: "'i ExplorationContext \<Rightarrow> nat" where
  "synthesis_count ctx = (case synthesisCount ctx of None \<Rightarrow> 0 | Some n \<Rightarrow> n)"

text \<open>
  \<open>createMiniSynthesis\<close>. The service call \<open>synthesisService.createMiniSynthesis\<close> is
  \<open>service\<close> (\<open>Inl\<close> when it throws), and \<open>createSynthesisInsight\<close> is \<open>mkInsight\<close>. A failure
  of the service is caught and leaves the context as it was.
\<close>

definition createMiniSynthesis ::
  "ExplorationConfig \<Rightarrow> (Stage list \<Rightarrow> 'i list \<Rightarrow> js_error + SynthesisReport) \<Rightarrow>
   (SynthesisReport \<Rightarrow> 'i) \<Rightarrow> 'i ExplorationContext \<Rightarrow> 'i ExplorationContext" where
  "createMiniSynthesis cfg service mkInsight ctx =
     (let interval = synthesisInterval cfg;
          lastStages = slice_from (previousStages ctx) (- interval)
      in if int (length lastStages) < interval then ctx
         else (case service lastStages (insights_or_empty ctx) of
                 Inl error \<Rightarrow> ctx
               | Inr synthesisReport \<Rightarrow>
                   ctx \<lparr> richInsights :=
                           Some (insights_or_empty ctx @ [mkInsight synthesisReport]),
                         insights := insights ctx @ [''[SYNTHESIS] '' @ summary synthesisReport],
                         synthesisCount := Some (synthesis_count ctx + 1) \<rparr>))"

text \<open>
  The end of \<open>executeStage\<close>: the stage is appended to the context, then the trigger decides
  whether \<open>createMiniSynthesis\<close> runs.
\<close>

definition executeStage_update ::
  "ExplorationConfig \<Rightarrow> (Stage list \<Rightarrow> 'i list \<Rightarrow> js_error + SynthesisReport) \<Rightarrow>
   (SynthesisReport \<Rightarrow> 'i) \<Rightarrow> bool \<Rightarrow> Stage \<Rightarrow> int \<Rightarrow>
   'i ExplorationContext \<Rightarrow> 'i ExplorationContext" where
  "executeStage_update cfg service mkInsight isSummary stage stageNumber ctx =
     (let ctx1 = ctx \<lparr> previousStages := previousStages ctx @ [stage],
                       currentStage := stageNumber - 1 \<rparr>
      in if enableMiniSynthesis cfg \<and>
            \<not> isSummary \<and>
            stage_status stage = complete \<and>
            js_rem (int (length (previousStages ctx1))) (synthesisInterval cfg) = Some 0 \<and>
            int (length (previousStages ctx1)) \<ge> synthesisInterval cfg
         then createMiniSynthesis cfg service mkInsight ctx1
         else ctx1)"

text \<open>A synthesis service that always returns a report, for the examples below.\<close>

definition example_service :: "Stage list \<Rightarrow> unit list \<Rightarrow> js_error + SynthesisReport" where
  "example_service stages found =
     Inr \<lparr> summary = ''three stages'', connections = [], patterns = [], contradictions = [],
           forwardLook = [], keyInsights = [] \<rparr>"

definition example_context :: "unit ExplorationContext" where
  "example_context =
     \<lparr> previousStages = [\<lparr> stage_status = complete \<rparr>, \<lparr> stage_status = complete \<rparr>],
       currentStage = 1, richInsights = None, insights = [], synthesisCount = None \<rparr>"

section \<open>The Azure AI provider\<close>

subsection \<open>Requests, responses and the outside world\<close>

text \<open>
  A string that is missing (\<open>undefined\<close>) and the empty string are both falsy, and the source
  tests strings for truthiness only; both are the empty string here.
\<close>

record AzureAIConfig =
  endpoint :: string
  apiKey :: string
  deploymentName :: "string option"
  apiVersion :: "string option"

record AzureAIProvider =
  config :: "AzureAIConfig option"
  isInitialized :: bool

text \<open>
  The options of a request that decide how it is executed. The other options (token
  limits, thinking budget, tools, system prompt, temperature, observers of the stream) only
  shape the request body or watch the stream.
\<close>

record AIExecuteOptions =
  prompt :: string
  opt_model :: "AIModel option"
  opt_stream :: "bool option"

text \<open>
  What \<open>JSON.parse\<close> returns is a JSON value; reading a property that is not there gives
  \<open>undefined\<close>. The numbers are the integers (token counts are). The source types the
  content of a response as a string and the token counts as numbers, without checking what
  the provider sent, so in a response they are the values found in the body.
\<close>

datatype js_value =
    JUndefined
  | JNull
  | JBool bool
  | JNum int
  | JStr string
  | JArr "js_value list"
  | JObj "(string \<times> js_value) list"

record ToolUse =
  tool_type :: js_value
  tool_input :: js_value

record TokenUsage =
  inputTokens :: js_value
  outputTokens :: js_value

record AIResponse =
  content :: js_value
  thinking :: "string option"
  artifacts :: "Artifact list option"
  toolUses :: "ToolUse list option"
  usage :: "TokenUsage option"
  provider :: AIProvider
  model :: AIModel

text \<open>
  A value is falsy when it is \<open>undefined\<close>, \<open>null\<close>, \<open>false\<close>, \<open>0\<close> or the empty string.
\<close>

definition truthy :: "js_value \<Rightarrow> bool" where
  "truthy v =
     (case v of
        JUndefined \<Rightarrow> False
      | JNull \<Rightarrow> False
      | JBool b \<Rightarrow> b
      | JNum n \<Rightarrow> n \<noteq> 0
      | JStr t \<Rightarrow> t \<noteq> []
      | _ \<Rightarrow> True)"

definition nullish :: "js_value \<Rightarrow> bool" where
  "nullish v = (v = JUndefined \<or> v = JNull)"

text \<open>
  An object is the list of its properties as the text of the body gives them; where a name
  is given twice the later one counts.
\<close>

definition own_property :: "(string \<times> js_value) list \<Rightarrow> string \<Rightarrow> js_value" where
  "own_property props name = (case map_of (rev props) name of None \<Rightarrow> JUndefined | Some v \<Rightarrow> v)"

text \<open>
  \<open>v.name\<close> for a value that is neither \<open>null\<close> nor \<open>undefined\<close>, and for the names that
  the source reads (\<open>choices\<close>, \<open>message\<close>, \<open>content\<close>, \<open>tool_calls\<close>, \<open>function\<close>, \<open>name\<close>,
  \<open>arguments\<close>, \<open>usage\<close>, \<open>prompt_tokens\<close>, \<open>completion_tokens\<close>, \<open>delta\<close>, \<open>thinking\<close>):
  only an object has such a property. \<open>v[0]\<close> is the first element of an array, the first
  character of a string and the property \<open>0\<close> of an object.
\<close>

definition get_property :: "js_value \<Rightarrow> string \<Rightarrow> js_value" where
  "get_property v name = (case v of JObj props \<Rightarrow> own_property props name | _ \<Rightarrow> JUndefined)"

definition first_element :: "js_value \<Rightarrow> js_value" where
  "first_element v =
     (case v of
        JArr xs \<Rightarrow> (case xs of [] \<Rightarrow> JUndefined | x # rest \<Rightarrow> x)
      | JStr t \<Rightarrow> (case t of [] \<Rightarrow> JUndefined | c # rest \<Rightarrow> JStr [c])
      | JObj props \<Rightarrow> own_property props ''0''
      | _ \<Rightarrow> JUndefined)"

text \<open>Optional chaining, \<open>v?.name\<close> and \<open>v?.[0]\<close>.\<close>

definition opt_property :: "js_value \<Rightarrow> string \<Rightarrow> js_value" where
  "opt_property v name = (if nullish v then JUndefined else get_property v name)"

definition opt_first :: "js_value \<Rightarrow> js_value" where
  "opt_first v = (if nullish v then JUndefined else first_element v)"

text \<open>
  The conversion of a value to a string, as string concatenation, \<open>RegExp.exec\<close> and
  \<open>JSON.parse\<close> apply it to their argument. An integer prints in decimal digits (below
  \<open>10^21\<close> in magnitude); an array prints its elements separated by commas, \<open>null\<close> and
  \<open>undefined\<close> as nothing. An object prints as \<open>[object Object]\<close> by the method it
  inherits; an object of a body that has a property \<open>toString\<close> of its own hides that
  method by a value that cannot be called, and its conversion throws a \<open>TypeError\<close>
  (\<open>None\<close>), also as an element of an array.
\<close>

definition show_int :: "int \<Rightarrow> string" where
  "show_int n = (if n < 0 then CHR ''-'' # show_nat (nat (- n)) else show_nat (nat n))"

fun join_comma :: "string list \<Rightarrow> string" where
  "join_comma [] = []"
| "join_comma [x] = x"
| "join_comma (x # y # rest) = x @ CHR '','' # join_comma (y # rest)"

fun to_string :: "js_value \<Rightarrow> string option" where
  "to_string JUndefined = Some ''undefined''"
| "to_string JNull = Some ''null''"
| "to_string (JBool b) = Some (if b then ''true'' else ''false'')"
| "to_string (JNum n) = Some (show_int n)"
| "to_string (JStr t) = Some t"
| "to_string (JArr xs) =
     map_option join_comma
       (those (map (\<lambda>x. if x = JUndefined \<or> x = JNull then Some [] else to_string x) xs))"
| "to_string (JObj props) =
     (if map_of props ''toString'' = None then Some ''[object Object]'' else None)"

definition not_primitive :: js_error where
  "not_primitive = Error ''Cannot convert object to primitive value''"

text \<open>
  \<open>for (const x of v)\<close>: an array gives its elements, a string its characters, and nothing
  else in a body can be iterated.
\<close>

definition iterate :: "js_value \<Rightarrow> js_value list option" where
  "iterate v =
     (case v of
        JArr xs \<Rightarrow> Some xs
      | JStr t \<Rightarrow> Some (map (\<lambda>c. JStr [c]) t)
      | _ \<Rightarrow> None)"

text \<open>
  What \<open>fetch\<close> gives: it throws, or it returns a response with a status, the text of the
  body, what \<open>response.json()\<close> makes of the body (it may throw), and the reads of the body's
  stream reader (absent when the response has no body; a read may throw).
\<close>

datatype read_result = Chunk string | ReadFails js_error

record http_response =
  http_status :: nat
  response_text :: string
  response_json :: "js_error + js_value"
  response_body :: "read_result list option"

datatype fetch_result = FetchFails js_error | Response http_response

definition response_ok :: "http_response \<Rightarrow> bool" where
  "response_ok r = (200 \<le> http_status r \<and> http_status r \<le> 299)"

text \<open>
  The environment is a collection of oracles: the result of the \<open>k\<close>-th \<open>fetch\<close>, the
  \<open>k\<close>-th reading of \<open>Date.now()\<close>, what \<open>JSON.parse\<close> makes of a text (\<open>None\<close> when it
  throws), and the outcome of the \<open>k\<close>-th request through the Anthropic SDK. The world
  counts what has happened so far and keeps the delays waited between retries and the
  provider calls of the service.
\<close>

record environment =
  net_fetch :: "nat \<Rightarrow> fetch_result"
  date_now :: "nat \<Rightarrow> nat"
  json_parse :: "string \<Rightarrow> js_value option"
  anthropic_sdk :: "nat \<Rightarrow> AIModel \<Rightarrow> bool \<Rightarrow> js_error + AIResponse"

record world =
  fetches :: nat
  clock_reads :: nat
  sleeps :: "nat list"
  sdk_calls :: nat
  provider_calls :: "(AIProvider \<times> AIModel option) list"

subsection \<open>Initialization\<close>

text \<open>\<open>endpoint.replace(/\/$/, '')\<close> removes one slash at the end.\<close>

definition strip_trailing_slash :: "string \<Rightarrow> string" where
  "strip_trailing_slash s = (if s \<noteq> [] \<and> last s = CHR ''/'' then butlast s else s)"

definition Azure_initialize :: "AzureAIConfig \<Rightarrow> AzureAIProvider \<Rightarrow> js_error + AzureAIProvider" where
  "Azure_initialize cfg p =
     (if endpoint cfg = [] \<or> apiKey cfg = []
      then Inl (Error ''Azure AI endpoint and API key are required'')
      else Inr (p \<lparr> config :=
                      Some (cfg \<lparr> endpoint := strip_trailing_slash (endpoint cfg),
                                  apiVersion :=
                                    Some (case apiVersion cfg of
                                            None \<Rightarrow> ''2024-05-01-preview''
                                          | Some v \<Rightarrow> if v = [] then ''2024-05-01-preview'' else v) \<rparr>),
                    isInitialized := True \<rparr>))"

definition Azure_getInitializationStatus :: "AzureAIProvider \<Rightarrow> bool" where
  "Azure_getInitializationStatus p = (isInitialized p \<and> config p \<noteq> None)"

subsection \<open>Parsing a completion\<close>

text \<open>\<open>v || fallback\<close>.\<close>

definition or_else :: "js_value \<Rightarrow> js_value \<Rightarrow> js_value" where
  "or_else v fallback = (if truthy v then v else fallback)"

text \<open>
  One round of the loop over the tool calls: \<open>tool.function.name\<close> and
  \<open>JSON.parse(tool.function.arguments)\<close> inside \<open>try\<close>. Reading a property of \<open>null\<close> or
  \<open>undefined\<close> throws, and so may \<open>JSON.parse\<close> and the conversion of its argument to a
  string; the source catches them all and skips the call (\<open>None\<close>).
\<close>

definition tool_use_of :: "environment \<Rightarrow> js_value \<Rightarrow> ToolUse option" where
  "tool_use_of env tool =
     (if nullish tool then None
      else (let f = get_property tool ''function''
            in if nullish f then None
               else (case to_string (get_property f ''arguments'') of
                       None \<Rightarrow> None
                     | Some arguments \<Rightarrow>
                         (case json_parse env arguments of
                            None \<Rightarrow> None
                          | Some parsed \<Rightarrow>
                              Some \<lparr> tool_type = get_property f ''name'',
                                     tool_input = parsed \<rparr>))))"

text \<open>
  \<open>parseResponse\<close>. The property \<open>choices\<close> is read from the body without \<open>?.\<close>, which throws
  when the body is \<open>null\<close>; the loop over the tool calls throws when they cannot be
  iterated; after the loop, \<open>extractArtifacts\<close> gives the content to \<open>RegExp.exec\<close>, which
  converts it to a string and throws when that fails. The three errors are \<open>TypeError\<close>s,
  with the message that V8 gives them. Each artifact reads the clock twice.
\<close>

definition parseResponse ::
  "environment \<Rightarrow> js_value \<Rightarrow> AIModel \<Rightarrow> world \<Rightarrow> (js_error + AIResponse) \<times> world" where
  "parseResponse env response m w =
     (if response = JNull
      then (Inl (Error (''Cannot read properties of null (reading '' @ [CHR 0x27] @ ''choices'' @
                        [CHR 0x27] @ '')'')), w)
      else if response = JUndefined
      then (Inl (Error (''Cannot read properties of undefined (reading '' @ [CHR 0x27] @
                        ''choices'' @ [CHR 0x27] @ '')'')), w)
      else
        (let first_message =
               opt_property (opt_first (get_property response ''choices'')) ''message'';
             content_value = or_else (opt_property first_message ''content'') (JStr []);
             toolCalls = or_else (opt_property first_message ''tool_calls'') (JArr [])
         in case iterate toolCalls of
              None \<Rightarrow> (Inl (Error ''toolCalls is not iterable''), w)
            | Some tools \<Rightarrow>
                (case to_string content_value of
                   None \<Rightarrow> (Inl not_primitive, w)
                 | Some content_text \<Rightarrow>
                (let uses = List.map_filter (tool_use_of env) tools;
                     found = extractArtifacts (date_now env) (clock_reads w) content_text
                 in (Inr \<lparr> content = content_value,
                           thinking = None,
                           artifacts = Some found,
                           toolUses = (if uses = [] then None else Some uses),
                           usage =
                             Some \<lparr> inputTokens =
                                      or_else (opt_property (get_property response ''usage'')
                                                 ''prompt_tokens'') (JNum 0),
                                    outputTokens =
                                      or_else (opt_property (get_property response ''usage'')
                                                 ''completion_tokens'') (JNum 0) \<rparr>,
                           provider = azure,
                           model = m \<rparr>,
                     w \<lparr> clock_reads := clock_reads w + 2 * length found \<rparr>)))))"

subsection \<open>Non-streaming execution\<close>

definition status_error :: "http_response \<Rightarrow> js_error" where
  "status_error r =
     Error (''Azure AI error: '' @ show_nat (http_status r) @ '' - '' @ response_text r)"

text \<open>
  \<open>executeNonStreaming\<close>: the clock is read before the request and after the body has been
  parsed.
\<close>

definition executeNonStreaming ::
  "environment \<Rightarrow> AzureAIProvider \<Rightarrow> AIModel \<Rightarrow> world \<Rightarrow> (js_error + AIResponse) \<times> world" where
  "executeNonStreaming env p m w =
     (case config p of
        None \<Rightarrow> (Inl (Error ''Not initialized''), w)
      | Some cfg \<Rightarrow>
          (let w1 = w \<lparr> clock_reads := clock_reads w + 1, fetches := fetches w + 1 \<rparr>
           in case net_fetch env (fetches w) of
                FetchFails e \<Rightarrow> (Inl e, w1)
              | Response r \<Rightarrow>
                  if \<not> response_ok r then (Inl (status_error r), w1)
                  else (case response_json r of
                          Inl e \<Rightarrow> (Inl e, w1)
                        | Inr d \<Rightarrow>
                            parseResponse env d m (w1 \<lparr> clock_reads := clock_reads w1 + 1 \<rparr>))))"

subsection \<open>Streaming execution\<close>

record stream_state =
  fullContent :: string
  fullThinking :: string
  stream_inputTokens :: js_value
  stream_outputTokens :: js_value

text \<open>
  \<open>s += v\<close> on a string: the value is appended as a string, or the conversion throws
  (\<open>None\<close>) and the string stays as it was.
\<close>

definition append_value :: "string \<Rightarrow> js_value \<Rightarrow> string option" where
  "append_value s v = map_option (\<lambda>t. s @ t) (to_string v)"

text \<open>
  One parsed frame that is not \<open>null\<close>: a truthy content or thinking fragment of the first
  choice's delta is appended as a string, and a truthy usage gives the token counts. When
  appending throws, the source catches the error and the rest of the frame is passed over.
\<close>

definition handle_frame :: "js_value \<Rightarrow> stream_state \<Rightarrow> stream_state" where
  "handle_frame parsed st =
     (let d = opt_property (opt_first (get_property parsed ''choices'')) ''delta'';
          c = opt_property d ''content'';
          t = opt_property d ''thinking'';
          u = get_property parsed ''usage''
      in case (if truthy c
               then map_option (\<lambda>s. st \<lparr> fullContent := s \<rparr>) (append_value (fullContent st) c)
               else Some st) of
           None \<Rightarrow> st
         | Some st1 \<Rightarrow>
             (case (if truthy t
                    then map_option (\<lambda>s. st1 \<lparr> fullThinking := s \<rparr>)
                           (append_value (fullThinking st1) t)
                    else Some st1) of
                None \<Rightarrow> st1
              | Some st2 \<Rightarrow>
                  if truthy u
                  then st2 \<lparr> stream_inputTokens :=
                               or_else (get_property u ''prompt_tokens'') (JNum 0),
                             stream_outputTokens :=
                               or_else (get_property u ''completion_tokens'') (JNum 0) \<rparr>
                  else st2))"

text \<open>
  One line that starts with \<open>data: \<close>: the sentinel \<open>[DONE]\<close> is passed over, and so is a
  frame that \<open>JSON.parse\<close> rejects or that is \<open>null\<close> (the source catches the error and goes
  on).
\<close>

definition handle_line :: "environment \<Rightarrow> string \<Rightarrow> stream_state \<Rightarrow> stream_state" where
  "handle_line env line st =
     (let d = drop 6 line
      in if d = ''[DONE]'' then st
         else (case json_parse env d of
                 None \<Rightarrow> st
               | Some parsed \<Rightarrow> if nullish parsed then st else handle_frame parsed st))"

definition handle_chunk :: "environment \<Rightarrow> string \<Rightarrow> stream_state \<Rightarrow> stream_state" where
  "handle_chunk env chunk st =
     foldl (\<lambda>acc line. handle_line env line acc) st
       (filter (\<lambda>line. startsWith line ''data: '') (split_lines chunk))"

text \<open>The loop over \<open>reader.read()\<close>: it ends when the reader is done, and a failing read throws.\<close>

fun read_stream :: "environment \<Rightarrow> read_result list \<Rightarrow> stream_state \<Rightarrow> js_error + stream_state" where
  "read_stream env [] st = Inr st"
| "read_stream env (ReadFails e # rest) st = Inl e"
| "read_stream env (Chunk c # rest) st = read_stream env rest (handle_chunk env c st)"

definition executeStreaming ::
  "environment \<Rightarrow> AzureAIProvider \<Rightarrow> AIModel \<Rightarrow> world \<Rightarrow> (js_error + AIResponse) \<times> world" where
  "executeStreaming env p m w =
     (case config p of
        None \<Rightarrow> (Inl (Error ''Not initialized''), w)
      | Some cfg \<Rightarrow>
          (let w1 = w \<lparr> fetches := fetches w + 1 \<rparr>
           in case net_fetch env (fetches w) of
                FetchFails e \<Rightarrow> (Inl e, w1)
              | Response r \<Rightarrow>
                  if \<not> response_ok r then (Inl (status_error r), w1)
                  else (case response_body r of
                          None \<Rightarrow> (Inl (Error ''No response body''), w1)
                        | Some reads \<Rightarrow>
                            (case read_stream env reads
                                    \<lparr> fullContent = [], fullThinking = [],
                                      stream_inputTokens = JNum 0,
                                      stream_outputTokens = JNum 0 \<rparr> of
                               Inl e \<Rightarrow> (Inl e, w1)
                             | Inr st \<Rightarrow>
                                 (let found = extractArtifacts (date_now env) (clock_reads w1)
                                                (fullContent st)
                                  in (Inr \<lparr> content = JStr (fullContent st),
                                            thinking = (if fullThinking st = [] then None
                                                        else Some (fullThinking st)),
                                            artifacts = Some found,
                                            toolUses = None,
                                            usage = Some \<lparr> inputTokens = stream_inputTokens st,
                                                           outputTokens = stream_outputTokens st \<rparr>,
                                            provider = azure,
                                            model = m \<rparr>,
                                      w1 \<lparr> clock_reads :=
                                             clock_reads w1 + 2 * length found \<rparr>))))))"

subsection \<open>Retry\<close>

definition MAX_RETRIES :: nat where
  "MAX_RETRIES = 3"

definition RETRY_DELAY_MS :: nat where
  "RETRY_DELAY_MS = 2000"

definition retryableKeywords :: "string list" where
  "retryableKeywords =
     [''network error'', ''fetch failed'', ''timeout'', ''connection reset'', ''socket hang up'',
      ''econnreset'', ''429'', ''503'', ''502'']"

definition isRetryableError :: "js_error \<Rightarrow> bool" where
  "isRetryableError err =
     (let errorMessage = toLowerCase (message err)
      in list_ex (\<lambda>keyword. js_includes errorMessage keyword) retryableKeywords)"

text \<open>
  \<open>executeWithRetry\<close>: the operation runs; when it throws a retryable error and the attempt
  is below \<open>MAX_RETRIES\<close>, the provider waits \<open>RETRY_DELAY_MS * 2^(attempt - 1)\<close> and runs
  the next attempt; any other error is thrown on. Attempts are numbered from 1.
\<close>

function executeWithRetry ::
  "(world \<Rightarrow> (js_error + AIResponse) \<times> world) \<Rightarrow> nat \<Rightarrow> world \<Rightarrow>
   (js_error + AIResponse) \<times> world" where
  "executeWithRetry operation attempt w =
     (case operation w of
        (Inr r, w1) \<Rightarrow> (Inr r, w1)
      | (Inl err, w1) \<Rightarrow>
          if isRetryableError err \<and> attempt < MAX_RETRIES
          then executeWithRetry operation (attempt + 1)
                 (w1 \<lparr> sleeps := sleeps w1 @ [RETRY_DELAY_MS * 2 ^ (attempt - 1)] \<rparr>)
          else (Inl err, w1))"
  by pat_completeness auto
termination
  by (relation "measure (\<lambda>(operation, attempt, w). MAX_RETRIES - attempt)") auto

declare executeWithRetry.simps [simp del]

subsection \<open>The entry point\<close>

text \<open>
  \<open>AzureAIProvider.execute\<close>: a streaming request goes through \<open>executeWithRetry\<close>, a
  non-streaming request goes to \<open>executeNonStreaming\<close> directly.
\<close>

definition Azure_execute ::
  "environment \<Rightarrow> AzureAIProvider \<Rightarrow> AIExecuteOptions \<Rightarrow> world \<Rightarrow>
   (js_error + AIResponse) \<times> world" where
  "Azure_execute env p options w =
     (case config p of
        None \<Rightarrow> (Inl (Error ''Azure AI provider not initialized''), w)
      | Some cfg \<Rightarrow>
          (let m = (case opt_model options of None \<Rightarrow> claude_3_5_sonnet_20241022 | Some x \<Rightarrow> x);
               stream = (case opt_stream options of None \<Rightarrow> False | Some b \<Rightarrow> b)
           in if stream then executeWithRetry (executeStreaming env p m) 1 w
              else executeNonStreaming env p m w))"

section \<open>The unified AI service\<close>

record AnthropicConfig =
  anthropic_apiKey :: string

record AIConfig =
  cfg_provider :: AIProvider
  cfg_azure :: "AzureAIConfig option"
  cfg_anthropic :: "AnthropicConfig option"

text \<open>
  The state of \<open>AIService\<close>. The Anthropic client exists once a key has been given; the Azure
  provider is the shared instance \<open>azureAIProvider\<close>.
\<close>

record AIService =
  service_config :: "AIConfig option"
  anthropicClient :: "AnthropicConfig option"
  azureProvider :: AzureAIProvider
  service_isInitialized :: bool
  activeProvider :: AIProvider

definition new_AzureAIProvider :: AzureAIProvider where
  "new_AzureAIProvider = \<lparr> config = None, isInitialized = False \<rparr>"

definition new_AIService :: AIService where
  "new_AIService =
     \<lparr> service_config = None, anthropicClient = None, azureProvider = new_AzureAIProvider,
       service_isInitialized = False, activeProvider = azure \<rparr>"

text \<open>
  \<open>AIService.initialize\<close>: each provider is set up only when its credentials are given;
  nothing is required of the configuration.
\<close>

definition AIService_initialize :: "AIConfig \<Rightarrow> AIService \<Rightarrow> js_error + AIService" where
  "AIService_initialize cfg s =
     (let s1 = s \<lparr> service_config := Some cfg, activeProvider := cfg_provider cfg \<rparr>;
          azure_ready =
            (case cfg_azure cfg of
               None \<Rightarrow> Inr s1
             | Some a \<Rightarrow>
                 if endpoint a \<noteq> [] \<and> apiKey a \<noteq> []
                 then (case Azure_initialize a (azureProvider s1) of
                         Inl e \<Rightarrow> Inl e
                       | Inr p \<Rightarrow> Inr (s1 \<lparr> azureProvider := p \<rparr>))
                 else Inr s1)
      in case azure_ready of
           Inl e \<Rightarrow> Inl e
         | Inr s2 \<Rightarrow>
             (let s3 = (case cfg_anthropic cfg of
                          None \<Rightarrow> s2
                        | Some a \<Rightarrow>
                            if anthropic_apiKey a \<noteq> [] then s2 \<lparr> anthropicClient := Some a \<rparr>
                            else s2)
              in Inr (s3 \<lparr> service_isInitialized := True \<rparr>)))"

text \<open>
  The two provider calls of the service. Each call is entered in \<open>provider_calls\<close> with the
  model it was given. \<open>executeWithAnthropic\<close> throws when there is no client; what the SDK
  does with the request is the oracle \<open>anthropic_sdk\<close>.
\<close>

definition executeWithAzure ::
  "environment \<Rightarrow> AIService \<Rightarrow> AIExecuteOptions \<Rightarrow> world \<Rightarrow> (js_error + AIResponse) \<times> world" where
  "executeWithAzure env s options w =
     Azure_execute env (azureProvider s) options
       (w \<lparr> provider_calls := provider_calls w @ [(azure, opt_model options)] \<rparr>)"

definition executeWithAnthropic ::
  "environment \<Rightarrow> AIService \<Rightarrow> AIExecuteOptions \<Rightarrow> world \<Rightarrow> (js_error + AIResponse) \<times> world" where
  "executeWithAnthropic env s options w =
     (let w0 = w \<lparr> provider_calls := provider_calls w @ [(anthropic, opt_model options)] \<rparr>
      in case anthropicClient s of
           None \<Rightarrow> (Inl (Error ''Anthropic client not initialized''), w0)
         | Some client \<Rightarrow>
             (let m = (case opt_model options of
                         None \<Rightarrow> claude_sonnet_4_5_20250929 | Some x \<Rightarrow> x);
                  stream = (case opt_stream options of None \<Rightarrow> False | Some b \<Rightarrow> b)
              in (anthropic_sdk env (sdk_calls w0) m stream,
                  w0 \<lparr> sdk_calls := sdk_calls w0 + 1 \<rparr>)))"

text \<open>
  \<open>AIService.execute\<close>: the active provider is tried; when it throws, the other provider is
  tried once if it is set up, with the model translated; when that throws too, or when
  there is no other provider, the first error is thrown.
\<close>

definition AIService_execute ::
  "environment \<Rightarrow> AIService \<Rightarrow> AIExecuteOptions \<Rightarrow> world \<Rightarrow> (js_error + AIResponse) \<times> world" where
  "AIService_execute env s options w =
     (if \<not> service_isInitialized s
      then (Inl (Error ''AI Service not initialized. Call initialize() first.''), w)
      else
        (let m = mapModel (case opt_model options of
                             None \<Rightarrow> claude_3_5_sonnet_20241022 | Some x \<Rightarrow> x)
         in case (if activeProvider s = azure
                  then executeWithAzure env s (options \<lparr> opt_model := Some m \<rparr>) w
                  else executeWithAnthropic env s (options \<lparr> opt_model := Some m \<rparr>) w) of
              (Inr r, w1) \<Rightarrow> (Inr r, w1)
            | (Inl err, w1) \<Rightarrow>
                if activeProvider s = azure \<and> anthropicClient s \<noteq> None
                then (case executeWithAnthropic env s
                             (options \<lparr> opt_model := Some (mapModelToAnthropic m) \<rparr>) w1 of
                        (Inr r, w2) \<Rightarrow> (Inr r, w2)
                      | (Inl fallbackError, w2) \<Rightarrow> (Inl err, w2))
                else if activeProvider s = anthropic \<and>
                        Azure_getInitializationStatus (azureProvider s)
                then (case executeWithAzure env s
                             (options \<lparr> opt_model := Some (mapModelToAzure m) \<rparr>) w1 of
                        (Inr r, w2) \<Rightarrow> (Inr r, w2)
                      | (Inl fallbackError, w2) \<Rightarrow> (Inl err, w2))
                else (Inl err, w1)))"

section \<open>Example environments\<close>

definition start :: world where
  "start = \<lparr> fetches = 0, clock_reads = 0, sleeps = [], sdk_calls = 0, provider_calls = [] \<rparr>"

definition ready_provider :: AzureAIProvider where
  "ready_provider =
     \<lparr> config = Some \<lparr> endpoint = ''https://models.inference.ai.azure.com'', apiKey = ''key'',
                       deploymentName = None, apiVersion = Some ''2024-05-01-preview'' \<rparr>,
       isInitialized = True \<rparr>"

text \<open>A gateway that answers every request with status 503, and an SDK that always fails.\<close>

definition unavailable :: http_response where
  "unavailable =
     \<lparr> http_status = 503, response_text = ''Service Unavailable'',
       response_json = Inl (Error ''Unexpected token S in JSON at position 0''),
       response_body = None \<rparr>"

definition env_unavailable :: environment where
  "env_unavailable =
     \<lparr> net_fetch = (\<lambda>k. Response unavailable),
       date_now = (\<lambda>k. k),
       json_parse = (\<lambda>s. None),
       anthropic_sdk = (\<lambda>k m stream. Inl (Error ''Connection error.'')) \<rparr>"



section \<open>Notions for the failover property\<close>

text \<open>
  The model a request asks for, the provider call of the service for a given provider, the
  provider that is not the active one, and whether the service can fail over to it.
\<close>

definition requested_model :: "AIExecuteOptions \<Rightarrow> AIModel" where
  "requested_model options =
     mapModel (case opt_model options of None \<Rightarrow> claude_3_5_sonnet_20241022 | Some x \<Rightarrow> x)"




text \<open>
  The translation of a model identifier for a target provider, in the words of the spec: by
  the mapping table. The identifier of the other provider in a pair of \<open>MODEL_MAPPING\<close> is
  replaced by the target's identifier of that pair; an identifier without a pair stays.
\<close>

definition table_translation :: "AIProvider \<Rightarrow> AIModel \<Rightarrow> AIModel" where
  "table_translation target m =
     (case List.find (\<lambda>(family, az, an). (if target = anthropic then az else an) = m)
             MODEL_MAPPING of
        None \<Rightarrow> m
      | Some (family, az, an) \<Rightarrow> (if target = anthropic then an else az))"



section \<open>Example services\<close>

text \<open>A service set up with both providers, Azure first, and an SDK that answers.\<close>

definition both_config :: AIConfig where
  "both_config =
     \<lparr> cfg_provider = azure,
       cfg_azure = Some \<lparr> endpoint = ''https://models.inference.ai.azure.com/'', apiKey = ''key'',
                          deploymentName = None, apiVersion = None \<rparr>,
       cfg_anthropic = Some \<lparr> anthropic_apiKey = ''sk-ant-key'' \<rparr> \<rparr>"

definition both_service :: AIService where
  "both_service =
     \<lparr> service_config = Some both_config,
       anthropicClient = Some \<lparr> anthropic_apiKey = ''sk-ant-key'' \<rparr>,
       azureProvider = ready_provider,
       service_isInitialized = True,
       activeProvider = azure \<rparr>"

definition answer :: AIResponse where
  "answer =
     \<lparr> content = JStr ''CONNECTION_OK'', thinking = None, artifacts = Some [], toolUses = None,
       usage = Some \<lparr> inputTokens = JNum 12, outputTokens = JNum 3 \<rparr>,
       provider = anthropic, model = claude_sonnet_4_5_20250929 \<rparr>"

definition env_failover :: environment where
  "env_failover =
     \<lparr> net_fetch = (\<lambda>k. Response unavailable),
       date_now = (\<lambda>k. k),
       json_parse = (\<lambda>s. None),
       anthropic_sdk = (\<lambda>k m stream. Inr (answer \<lparr> model := m \<rparr>)) \<rparr>"

text \<open>A configuration that names Azure as the provider and gives no credentials at all.\<close>

definition no_credentials :: AIConfig where
  "no_credentials = \<lparr> cfg_provider = azure, cfg_azure = None, cfg_anthropic = None \<rparr>"

definition no_credentials_service :: AIService where
  "no_credentials_service =
     \<lparr> service_config = Some no_credentials, anthropicClient = None,
       azureProvider = new_AzureAIProvider, service_isInitialized = True,
       activeProvider = azure \<rparr>"

definition plain_request :: AIExecuteOptions where
  "plain_request = \<lparr> prompt = ''Reply with exactly CONNECTION_OK'', opt_model = None, opt_stream = None \<rparr>"

definition streaming_request :: AIExecuteOptions where
  "streaming_request =
     \<lparr> prompt = ''Reply with exactly CONNECTION_OK'', opt_model = None, opt_stream = Some True \<rparr>"










text \<open>
  A configuration that names Azure, gives no credentials for it and gives an Anthropic key.
\<close>

definition anthropic_key_only :: AIConfig where
  "anthropic_key_only =
     \<lparr> cfg_provider = azure, cfg_azure = None,
       cfg_anthropic = Some \<lparr> anthropic_apiKey = ''sk-ant-key'' \<rparr> \<rparr>"

definition anthropic_key_only_service :: AIService where
  "anthropic_key_only_service =
     \<lparr> service_config = Some anthropic_key_only,
       anthropicClient = Some \<lparr> anthropic_apiKey = ''sk-ant-key'' \<rparr>,
       azureProvider = new_AzureAIProvider, service_isInitialized = True,
       activeProvider = azure \<rparr>"

section \<open>Properties of artifact extraction\<close>

subsection \<open>The pattern consumes text\<close>

lemma find_close_shorter: "find_close s = Some (b, r) \<Longrightarrow> length r < length s"
  by (induction s arbitrary: b r) (auto simp: fence_def split: if_splits option.splits)

lemma match_here_shorter:
  assumes "match_here s = Some (t, b, r)"
  shows "length r < length s"
proof -
  from assms obtain c body where
    d: "dropWhile is_word_char (drop 3 s) = c # body" and f: "find_close body = Some (b, r)"
    by (auto simp: match_here_def Let_def split: if_splits list.splits option.splits)
  have "length (c # body) \<le> length (drop 3 s)"
    unfolding d [symmetric] by (rule length_dropWhile_le)
  with find_close_shorter [OF f] show ?thesis by simp
qed

lemma regex_exec_shorter: "regex_exec s = Some (t, b, r) \<Longrightarrow> length r < length s"
proof (induction s)
  case Nil
  then show ?case by simp
next
  case (Cons c cs)
  show ?case
  proof (cases "match_here (c # cs)")
    case None
    with Cons have "length r < length cs" by simp
    then show ?thesis by simp
  next
    case (Some m)
    with Cons.prems have "match_here (c # cs) = Some (t, b, r)" by simp
    then show ?thesis by (rule match_here_shorter)
  qed
qed

lemma matches_upto_enough: "length s \<le> n \<Longrightarrow> matches_upto n s = matches_upto (length s) s"
proof (induction n arbitrary: s rule: less_induct)
  case (less n)
  show ?case
  proof (cases "regex_exec s")
    case None
    then show ?thesis by (cases n; cases "length s") simp_all
  next
    case (Some m)
    obtain t b r where m: "m = (t, b, r)" by (cases m)
    from Some m have lt: "length r < length s" by (simp add: regex_exec_shorter)
    then obtain n' where n: "n = Suc n'" using less.prems by (cases n) auto
    from lt obtain l' where l: "length s = Suc l'" by (cases "length s") auto
    have a: "matches_upto n' r = matches_upto (length r) r"
      using less.IH [of n' r] lt less.prems n by simp
    have b: "matches_upto l' r = matches_upto (length r) r"
      using less.IH [of l' r] lt less.prems n l by simp
    show ?thesis using Some m a b by (simp add: n l)
  qed
qed

lemma pattern_matches_unfold:
  "pattern_matches s =
     (case regex_exec s of
        None \<Rightarrow> []
      | Some (tag, body, rest) \<Rightarrow> (tag, body) # pattern_matches rest)"
proof (cases "regex_exec s")
  case None
  then show ?thesis by (cases "length s") (simp_all add: pattern_matches_def)
next
  case (Some m)
  obtain t b r where m: "m = (t, b, r)" by (cases m)
  from Some m have lt: "length r < length s" by (simp add: regex_exec_shorter)
  then obtain l' where l: "length s = Suc l'" by (cases "length s") auto
  have "matches_upto l' r = matches_upto (length r) r"
    using matches_upto_enough [of r l'] lt l by simp
  then show ?thesis using Some m by (simp add: pattern_matches_def l)
qed

lemma shape_mk_artifact:
  "shape (mk_artifact now k i (block_language (t, b)) (trim b)) = block_shape (t, b)"
  by (simp add: shape_def mk_artifact_def block_shape_def)

lemma extract_loop_shape:
  "map shape (extract_loop now k i s) = map block_shape (filter kept (pattern_matches s))"
proof (induction now k i s rule: extract_loop.induct)
  case (1 now k index s)
  show ?case
  proof (cases "regex_exec s")
    case None
    then show ?thesis by (subst pattern_matches_unfold, subst extract_loop.simps) simp
  next
    case (Some m)
    obtain t b r where m: "m = (t, b, r)" by (cases m)
    show ?thesis
    proof (cases "length (trim b) > 10")
      case True
      have ih: "map shape (extract_loop now (k + 2) (index + 1) r) =
                map block_shape (filter kept (pattern_matches r))"
        using "1.IH"(1) [OF Some [unfolded m] refl refl refl refl True] .
      have "extract_loop now k index s =
              mk_artifact now k index (block_language (t, b)) (trim b) #
              extract_loop now (k + 2) (index + 1) r"
        using Some m True by (subst extract_loop.simps) (simp add: block_language_def)
      moreover have "pattern_matches s = (t, b) # pattern_matches r"
        using Some m by (subst pattern_matches_unfold) simp
      moreover have "kept (t, b)"
        using True by (simp add: kept_def)
      ultimately show ?thesis
        using ih by (simp add: shape_mk_artifact)
    next
      case False
      have ih: "map shape (extract_loop now k index r) =
                map block_shape (filter kept (pattern_matches r))"
        using "1.IH"(2) [OF Some [unfolded m] refl refl refl refl False] .
      have "extract_loop now k index s = extract_loop now k index r"
        using Some m False by (subst extract_loop.simps) simp
      moreover have "pattern_matches s = (t, b) # pattern_matches r"
        using Some m by (subst pattern_matches_unfold) simp
      moreover have "\<not> kept (t, b)"
        using False by (simp add: kept_def)
      ultimately show ?thesis
        using ih by (simp)
    qed
  qed
qed


subsection \<open>Classification\<close>

lemma code_tags: "list_all (\<lambda>t. getArtifactType t = code)
  [''javascript'', ''typescript'', ''python'', ''java'', ''rust'', ''go'', ''cpp'', ''c'',
   ''html'', ''css'', ''jsx'', ''tsx'', ''ruby'', ''php'', ''swift'', ''kotlin'', ''scala'']"
  by code_simp

lemma viz_tags: "list_all (\<lambda>t. getArtifactType t = visualization)
  [''mermaid'', ''graphviz'', ''dot'', ''plantuml'']"
  by code_simp

lemma data_tags: "list_all (\<lambda>t. getArtifactType t = data)
  [''json'', ''yaml'', ''toml'', ''xml'', ''csv'']"
  by code_simp

lemma other_tags:
  "toLowerCase t \<notin> set
     ([''javascript'', ''typescript'', ''python'', ''java'', ''rust'', ''go'', ''cpp'', ''c'',
       ''html'', ''css'', ''jsx'', ''tsx'', ''ruby'', ''php'', ''swift'', ''kotlin'', ''scala'']
      @ [''mermaid'', ''graphviz'', ''dot'', ''plantuml'']
      @ [''json'', ''yaml'', ''toml'', ''xml'', ''csv'']) \<Longrightarrow>
   getArtifactType t = document"
  by (simp add: getArtifactType_def Let_def codeLanguages_def vizLanguages_def dataLanguages_def)

lemma same_lower: "toLowerCase a = toLowerCase b \<Longrightarrow> getArtifactType a = getArtifactType b"
  by (simp add: getArtifactType_def)

lemma service_same: "AIService_getArtifactType t = getArtifactType t"
  by (simp add: AIService_getArtifactType_def getArtifactType_def Let_def
        codeLanguages_def vizLanguages_def dataLanguages_def)

text \<open>
  Claim C4. The classification of a language tag: each of the seventeen programming-language
  tags is \<open>code\<close>, each of the four diagramming tags is \<open>visualization\<close>, each of the five
  structured-data tags is \<open>data\<close>, and a tag whose lower-case form is none of these is
  \<open>document\<close>. Two tags with the same lower-case form are classified alike, and the copy
  of the function in \<open>AIService\<close> agrees with the one in \<open>AzureAIProvider\<close> on every tag.
\<close>

theorem getArtifactType_classification:
  "(\<forall>t \<in> set [''javascript'', ''typescript'', ''python'', ''java'', ''rust'', ''go'', ''cpp'',
       ''c'', ''html'', ''css'', ''jsx'', ''tsx'', ''ruby'', ''php'', ''swift'', ''kotlin'',
       ''scala'']. getArtifactType t = code) \<and>
   (\<forall>t \<in> set [''mermaid'', ''graphviz'', ''dot'', ''plantuml''].
       getArtifactType t = visualization) \<and>
   (\<forall>t \<in> set [''json'', ''yaml'', ''toml'', ''xml'', ''csv'']. getArtifactType t = data) \<and>
   (\<forall>t. toLowerCase t \<notin> set
       ([''javascript'', ''typescript'', ''python'', ''java'', ''rust'', ''go'', ''cpp'', ''c'',
         ''html'', ''css'', ''jsx'', ''tsx'', ''ruby'', ''php'', ''swift'', ''kotlin'', ''scala'']
        @ [''mermaid'', ''graphviz'', ''dot'', ''plantuml'']
        @ [''json'', ''yaml'', ''toml'', ''xml'', ''csv'']) \<longrightarrow>
       getArtifactType t = document) \<and>
   (\<forall>a b. toLowerCase a = toLowerCase b \<longrightarrow> getArtifactType a = getArtifactType b) \<and>
   (\<forall>t. AIService_getArtifactType t = getArtifactType t)"
  using code_tags viz_tags data_tags other_tags same_lower service_same
  unfolding list_all_iff by blast

theorem getArtifactType_classification_witness:
  "getArtifactType ''kotlin'' = code \<and>
   getArtifactType ''dot'' = visualization \<and>
   getArtifactType ''csv'' = data \<and>
   getArtifactType ''cobol'' = document \<and>
   getArtifactType ''PyThOn'' = getArtifactType ''python'' \<and>
   AIService_getArtifactType ''YAML'' = getArtifactType ''YAML''"
proof -
  note c = getArtifactType_classification
  have k: "''kotlin'' \<in> set [''javascript'', ''typescript'', ''python'', ''java'', ''rust'',
       ''go'', ''cpp'', ''c'', ''html'', ''css'', ''jsx'', ''tsx'', ''ruby'', ''php'', ''swift'',
       ''kotlin'', ''scala'']" by simp
  have d: "''dot'' \<in> set [''mermaid'', ''graphviz'', ''dot'', ''plantuml'']" by simp
  have v: "''csv'' \<in> set [''json'', ''yaml'', ''toml'', ''xml'', ''csv'']" by simp
  have o: "toLowerCase ''cobol'' \<notin> set
       ([''javascript'', ''typescript'', ''python'', ''java'', ''rust'', ''go'', ''cpp'', ''c'',
         ''html'', ''css'', ''jsx'', ''tsx'', ''ruby'', ''php'', ''swift'', ''kotlin'', ''scala'']
        @ [''mermaid'', ''graphviz'', ''dot'', ''plantuml'']
        @ [''json'', ''yaml'', ''toml'', ''xml'', ''csv''])" by code_simp
  have l: "toLowerCase ''PyThOn'' = toLowerCase ''python''" by code_simp
  from c k have 1: "getArtifactType ''kotlin'' = code" by blast
  from c d have 2: "getArtifactType ''dot'' = visualization" by blast
  from c v have 3: "getArtifactType ''csv'' = data" by blast
  from c o have 4: "getArtifactType ''cobol'' = document" by blast
  from c l have 5: "getArtifactType ''PyThOn'' = getArtifactType ''python''" by blast
  from c have 6: "AIService_getArtifactType ''YAML'' = getArtifactType ''YAML''" by blast
  from 1 2 3 4 5 6 show ?thesis by blast
qed

subsection \<open>Extraction\<close>

text \<open>
  Claim C8. Two runs of the extractor on the same text, whatever the clock shows in either
  run, yield the same number of artifacts, pairwise equal in type, title, content and
  metadata. Only the identifier and the creation time depend on the clock.
\<close>

theorem extractArtifacts_deterministic:
  "length (extractArtifacts now1 k1 doc) = length (extractArtifacts now2 k2 doc) \<and>
   map (\<lambda>a. (artifact_type a, title a, artifact_content a, metadata a))
       (extractArtifacts now1 k1 doc) =
   map (\<lambda>a. (artifact_type a, title a, artifact_content a, metadata a))
       (extractArtifacts now2 k2 doc)"
proof -
  have s: "shape = (\<lambda>a. (artifact_type a, title a, artifact_content a, metadata a))"
    by (rule ext) (simp add: shape_def)
  have e: "map shape (extractArtifacts now1 k1 doc) = map shape (extractArtifacts now2 k2 doc)"
    by (simp only: extractArtifacts_def extract_loop_shape)
  from e have "length (extractArtifacts now1 k1 doc) = length (extractArtifacts now2 k2 doc)"
    by (rule map_eq_imp_length_eq)
  with e show ?thesis by (simp add: s)
qed


lemma extractArtifacts_shape:
  "map shape (extractArtifacts now k doc) =
   map block_shape (filter (\<lambda>blk. 10 < length (trim (snd blk))) (pattern_matches doc))"
proof -
  have "kept = (\<lambda>blk. 10 < length (trim (snd blk)))"
    by (rule ext) (simp add: kept_def)
  then show ?thesis
    by (simp add: extractArtifacts_def extract_loop_shape)
qed

lemma artifact_type_shape: "map artifact_type xs = map fst (map shape xs)"
  by (simp add: shape_def comp_def)

lemma python_is_code: "getArtifactType ''python'' = code"
  by code_simp

lemma text_is_document: "getArtifactType ''text'' = document"
  by code_simp

lemma capitalize_text: "capitalizeFirst ''text'' = ''Text''"
  by code_simp

subsection \<open>Plain texts: the matches are the blocks written\<close>

lemma fence_free_Cons:
  assumes "fence_free (c # s)"
  shows "fence_free s" and "\<not> startsWith (c # s @ rest) fence"
proof -
  from assms have a: "\<not> startsWith (c # s @ ''``'') fence" and b: "\<not> js_includes (s @ ''``'') fence"
    by (simp_all add: fence_free_def)
  from b show "fence_free s" by (simp add: fence_free_def)
  show "\<not> startsWith (c # s @ rest) fence"
  proof
    assume "startsWith (c # s @ rest) fence"
    then have "startsWith (c # s @ ''``'') fence"
      by (cases s; cases "tl s") (auto simp: startsWith_def fence_def)
    with a show False by simp
  qed
qed

lemma regex_exec_prose: "fence_free p \<Longrightarrow> regex_exec (p @ rest) = regex_exec rest"
proof (induction p)
  case Nil
  then show ?case by simp
next
  case (Cons c p)
  have f: "fence_free p" and n: "\<not> startsWith (c # p @ rest) fence"
    using fence_free_Cons(1) [OF Cons.prems] fence_free_Cons(2) [OF Cons.prems, of rest]
    by simp_all
  from n have "match_here (c # p @ rest) = None" by (simp add: match_here_def)
  with Cons.IH [OF f] show ?case by simp
qed

lemma find_close_body: "fence_free b \<Longrightarrow> find_close (b @ fence @ rest) = Some (b, rest)"
proof (induction b)
  case Nil
  then show ?case by (simp add: fence_def startsWith_def)
next
  case (Cons c b)
  have f: "fence_free b" and n: "\<not> startsWith (c # b @ fence @ rest) fence"
    using fence_free_Cons(1) [OF Cons.prems] fence_free_Cons(2) [OF Cons.prems, of "fence @ rest"]
    by simp_all
  with Cons.IH [OF f] show ?case by simp
qed

lemma newline_not_word: "\<not> is_word_char newline"
  by (simp add: is_word_char_def newline_def)

lemma match_here_block:
  assumes "list_all is_word_char tag" "fence_free body"
  shows "match_here (fence @ tag @ [newline] @ body @ fence @ rest) =
           Some (if tag = [] then None else Some tag, body, rest)"
proof -
  have s: "startsWith (fence @ tag @ [newline] @ body @ fence @ rest) fence"
    by (simp add: startsWith_def)
  have d: "drop 3 (fence @ tag @ [newline] @ body @ fence @ rest) =
             tag @ newline # body @ fence @ rest"
    by (simp add: fence_def)
  from assms(1) have a: "\<forall>x \<in> set tag. is_word_char x"
    by (simp add: list_all_iff)
  have t: "takeWhile is_word_char (tag @ newline # body @ fence @ rest) = tag"
    using a newline_not_word by (simp add: takeWhile_append2)
  have r: "dropWhile is_word_char (tag @ newline # body @ fence @ rest) =
             newline # body @ fence @ rest"
    using a newline_not_word by (simp add: dropWhile_append2)
  show ?thesis
    unfolding match_here_def
    by (simp only: s d t r Let_def if_True list.case find_close_body [OF assms(2)]
          option.case prod.case refl)
qed

lemma regex_exec_block:
  assumes "list_all is_word_char tag" "fence_free body"
  shows "regex_exec (fence @ tag @ [newline] @ body @ fence @ rest) =
           Some (if tag = [] then None else Some tag, body, rest)"
proof -
  obtain c cs where e: "fence @ tag @ [newline] @ body @ fence @ rest = c # cs"
    by (simp add: fence_def)
  from match_here_block [OF assms, of rest] show ?thesis
    unfolding e by simp
qed

lemma pattern_matches_same:
  "regex_exec s = regex_exec s' \<Longrightarrow> pattern_matches s = pattern_matches s'"
  by (subst pattern_matches_unfold, subst (2) pattern_matches_unfold) simp

lemma pattern_matches_plain: "plain segs \<Longrightarrow> pattern_matches (render segs) = blocks_of segs"
proof (induction segs)
  case Nil
  show ?case by (subst pattern_matches_unfold) (simp add: render_def)
next
  case (Cons g segs)
  from Cons.prems have p: "plain segs" and g: "plain_segment g"
    by (simp_all add: plain_def)
  show ?case
  proof (cases g)
    case (Prose q)
    with g have "regex_exec (q @ render segs) = regex_exec (render segs)"
      by (simp add: regex_exec_prose)
    then have "pattern_matches (q @ render segs) = pattern_matches (render segs)"
      by (rule pattern_matches_same)
    with Cons.IH [OF p] Prose show ?thesis by (simp add: render_def)
  next
    case (Fenced tag body)
    with g have w: "list_all is_word_char tag" and f: "fence_free body"
      by simp_all
    have "regex_exec (fence @ tag @ [newline] @ body @ fence @ render segs) =
                   Some (if tag = [] then None else Some tag, body, render segs)"
      by (rule regex_exec_block [OF w f])
    then have "pattern_matches (fence @ tag @ [newline] @ body @ fence @ render segs) =
                 (if tag = [] then None else Some tag, body) # pattern_matches (render segs)"
      by (subst pattern_matches_unfold) simp
    with Cons.IH [OF p] Fenced show ?thesis by (simp add: render_def)
  qed
qed

lemma extractArtifacts_plain:
  "plain segs \<Longrightarrow>
   map shape (extractArtifacts now k (render segs)) =
   map block_shape (filter (\<lambda>blk. 10 < length (trim (snd blk))) (blocks_of segs))"
  by (simp add: extractArtifacts_shape pattern_matches_plain)

lemma two_blocks_one_artifact:
  assumes "map shape xs = map block_shape (filter (\<lambda>blk. 10 < length (trim (snd blk))) bs)"
    and "bs = [(Some ''python'', b1), (Some ''json'', b2)] \<or>
         bs = [(Some ''json'', b2), (Some ''python'', b1)]"
    and "length (trim b1) = 40" "length (trim b2) = 5"
  shows "map artifact_type xs = [code]"
proof -
  from assms(2-4) have "filter (\<lambda>blk. 10 < length (trim (snd blk))) bs = [(Some ''python'', b1)]"
    by auto
  with assms(1) have "map shape xs = [block_shape (Some ''python'', b1)]"
    by simp
  then show ?thesis
    by (simp add: artifact_type_shape block_shape_def block_language_def python_is_code)
qed

text \<open>
  Claim C3, amended. For every text, extraction keeps exactly the matches of the pattern
  whose trimmed content is longer than 10 characters, in their order, and drops the matches
  of 10 characters or fewer. In a plain text with fenced blocks the matches of the pattern
  are the blocks written, so there extraction keeps exactly the blocks whose trimmed content
  is longer than 10 characters. In particular, when the matches of a text, or the blocks of
  a plain text, are exactly two, one tagged \<open>python\<close> with 40 characters of trimmed content
  and one tagged \<open>json\<close> with 5, the result is one artifact, of type \<open>code\<close>.
\<close>

theorem extractArtifacts_threshold:
  "map (\<lambda>a. (artifact_type a, title a, artifact_content a, metadata a))
       (extractArtifacts now k doc) =
   map block_shape (filter (\<lambda>blk. 10 < length (trim (snd blk))) (pattern_matches doc)) \<and>
   (plain segs \<longrightarrow>
      pattern_matches (render segs) = blocks_of segs \<and>
      map (\<lambda>a. (artifact_type a, title a, artifact_content a, metadata a))
          (extractArtifacts now k (render segs)) =
      map block_shape (filter (\<lambda>blk. 10 < length (trim (snd blk))) (blocks_of segs))) \<and>
   ((pattern_matches doc = [(Some ''python'', b1), (Some ''json'', b2)] \<or>
     pattern_matches doc = [(Some ''json'', b2), (Some ''python'', b1)]) \<and>
    length (trim b1) = 40 \<and> length (trim b2) = 5 \<longrightarrow>
    map artifact_type (extractArtifacts now k doc) = [code]) \<and>
   (plain segs \<and>
    (blocks_of segs = [(Some ''python'', b1), (Some ''json'', b2)] \<or>
     blocks_of segs = [(Some ''json'', b2), (Some ''python'', b1)]) \<and>
    length (trim b1) = 40 \<and> length (trim b2) = 5 \<longrightarrow>
    map artifact_type (extractArtifacts now k (render segs)) = [code])"
proof -
  have s: "shape = (\<lambda>a. (artifact_type a, title a, artifact_content a, metadata a))"
    by (rule ext) (simp add: shape_def)
  have 1: "map shape (extractArtifacts now k doc) =
           map block_shape (filter (\<lambda>blk. 10 < length (trim (snd blk))) (pattern_matches doc))"
    by (rule extractArtifacts_shape)
  have 2: "pattern_matches (render segs) = blocks_of segs \<and>
           map shape (extractArtifacts now k (render segs)) =
           map block_shape (filter (\<lambda>blk. 10 < length (trim (snd blk))) (blocks_of segs))"
    if "plain segs"
    using that by (simp add: pattern_matches_plain extractArtifacts_plain)
  have 3: "map artifact_type (extractArtifacts now k doc) = [code]"
    if "(pattern_matches doc = [(Some ''python'', b1), (Some ''json'', b2)] \<or>
         pattern_matches doc = [(Some ''json'', b2), (Some ''python'', b1)]) \<and>
        length (trim b1) = 40 \<and> length (trim b2) = 5"
    using two_blocks_one_artifact [OF 1, of b1 b2] that by blast
  have 4: "map artifact_type (extractArtifacts now k (render segs)) = [code]"
    if "plain segs \<and>
        (blocks_of segs = [(Some ''python'', b1), (Some ''json'', b2)] \<or>
         blocks_of segs = [(Some ''json'', b2), (Some ''python'', b1)]) \<and>
        length (trim b1) = 40 \<and> length (trim b2) = 5"
    using two_blocks_one_artifact [OF extractArtifacts_plain, of segs b1 b2 now k] that by blast
  from 1 2 3 4 show ?thesis unfolding s by blast
qed

theorem extractArtifacts_threshold_witness:
  "plain [Prose ''Intro\<newline>'',
          Fenced ''python'' ''def add(a, b):\<newline>    return a + b  # sum 1\<newline>'',
          Prose ''\<newline>and\<newline>'',
          Fenced ''json'' ''[1,2]\<newline>''] \<and>
   blocks_of [Prose ''Intro\<newline>'',
          Fenced ''python'' ''def add(a, b):\<newline>    return a + b  # sum 1\<newline>'',
          Prose ''\<newline>and\<newline>'',
          Fenced ''json'' ''[1,2]\<newline>''] =
     [(Some ''python'', ''def add(a, b):\<newline>    return a + b  # sum 1\<newline>''),
      (Some ''json'', ''[1,2]\<newline>'')] \<and>
   length (trim ''def add(a, b):\<newline>    return a + b  # sum 1\<newline>'') = 40 \<and>
   length (trim ''[1,2]\<newline>'') = 5 \<and>
   pattern_matches (render [Prose ''Intro\<newline>'',
          Fenced ''python'' ''def add(a, b):\<newline>    return a + b  # sum 1\<newline>'',
          Prose ''\<newline>and\<newline>'',
          Fenced ''json'' ''[1,2]\<newline>'']) =
     [(Some ''python'', ''def add(a, b):\<newline>    return a + b  # sum 1\<newline>''),
      (Some ''json'', ''[1,2]\<newline>'')] \<and>
   map artifact_type (extractArtifacts (\<lambda>i. i) 0 (render [Prose ''Intro\<newline>'',
          Fenced ''python'' ''def add(a, b):\<newline>    return a + b  # sum 1\<newline>'',
          Prose ''\<newline>and\<newline>'',
          Fenced ''json'' ''[1,2]\<newline>''])) = [code] \<and>
   pattern_matches ''```json\<newline>[1,2]\<newline>```\<newline>```python\<newline>def add(a, b):\<newline>    return a + b  # sum 1\<newline>```'' =
     [(Some ''json'', ''[1,2]\<newline>''),
      (Some ''python'', ''def add(a, b):\<newline>    return a + b  # sum 1\<newline>'')] \<and>
   map artifact_type (extractArtifacts (\<lambda>i. i) 0
     ''```json\<newline>[1,2]\<newline>```\<newline>```python\<newline>def add(a, b):\<newline>    return a + b  # sum 1\<newline>```'') = [code]"
proof -
  let ?segs = "[Prose ''Intro\<newline>'',
          Fenced ''python'' ''def add(a, b):\<newline>    return a + b  # sum 1\<newline>'',
          Prose ''\<newline>and\<newline>'',
          Fenced ''json'' ''[1,2]\<newline>'']"
  let ?b1 = "''def add(a, b):\<newline>    return a + b  # sum 1\<newline>''"
  let ?b2 = "''[1,2]\<newline>''"
  let ?doc = "''```json\<newline>[1,2]\<newline>```\<newline>```python\<newline>def add(a, b):\<newline>    return a + b  # sum 1\<newline>```''"
  have p: "plain ?segs"
    by code_simp
  have b: "blocks_of ?segs = [(Some ''python'', ?b1), (Some ''json'', ?b2)]"
    by simp
  have l1: "length (trim ?b1) = 40"
    by code_simp
  have l2: "length (trim ?b2) = 5"
    by code_simp
  have m: "pattern_matches ?doc = [(Some ''json'', ?b2), (Some ''python'', ?b1)]"
    by code_simp
  note t = extractArtifacts_threshold [of "\<lambda>i. i" 0 ?doc ?segs ?b1 ?b2]
  from t p b have c1: "pattern_matches (render ?segs) = [(Some ''python'', ?b1), (Some ''json'', ?b2)]"
    by simp
  from t p b l1 l2 have c2: "map artifact_type (extractArtifacts (\<lambda>i. i) 0 (render ?segs)) = [code]"
    by blast
  from t m l1 l2 have c3: "map artifact_type (extractArtifacts (\<lambda>i. i) 0 ?doc) = [code]"
    by blast
  from p b l1 l2 c1 c2 m c3 show ?thesis by blast
qed

text \<open>
  The claim as stated discards only blocks shorter than 10 characters, and speaks of every
  text. A block whose trimmed content has exactly 10 characters is not shorter than 10, and
  it is discarded: the test in the source is \<open>code.length > 10\<close>. And in the text that
  begins with a block tagged \<open>c++\<close>, whose Python block has 38 characters of trimmed content
  and whose block without a tag has 27, neither of the two is kept: the pattern does not
  take \<open>c++\<close> for a tag, reads each closing fence as an opening one, and the two artifacts
  are the lines of prose between the blocks.
\<close>

theorem extractArtifacts_threshold_counterexample:
  "plain [Fenced ''python'' ''0123456789\<newline>''] \<and>
   blocks_of [Fenced ''python'' ''0123456789\<newline>''] = [(Some ''python'', ''0123456789\<newline>'')] \<and>
   length (trim ''0123456789\<newline>'') = 10 \<and>
   extractArtifacts (\<lambda>i. i) 0 (render [Fenced ''python'' ''0123456789\<newline>'']) = [] \<and>
   blocks_of cpp_first =
     [(Some ''c++'', ''int main() { return 0; }\<newline>''),
      (Some ''python'', ''import sys\<newline>print(sys.argv)\<newline>sys.exit(0)\<newline>''),
      (None, ''usage: prog [options] files\<newline>'')] \<and>
   length (trim ''import sys\<newline>print(sys.argv)\<newline>sys.exit(0)\<newline>'') = 38 \<and>
   length (trim ''usage: prog [options] files\<newline>'') = 27 \<and>
   map (\<lambda>a. (artifact_type a, artifact_content a))
       (extractArtifacts (\<lambda>i. i) 0 (render cpp_first)) =
     [(document, ''The same program in Python:''), (document, ''and its output:'')]"
  by code_simp

lemma untagged_in_blocks: "Fenced [] body \<in> set segs \<Longrightarrow> (None, body) \<in> set (blocks_of segs)"
  by (induction segs rule: blocks_of.induct) auto

lemma untagged_match_extracted:
  assumes "(None, body) \<in> set (pattern_matches doc)" "10 < length (trim body)"
  shows "\<exists>a \<in> set (extractArtifacts now k doc).
     language (metadata a) = ''text'' \<and> artifact_type a = document \<and>
     title a = ''Text Code'' \<and> artifact_content a = trim body"
proof -
  from assms have "block_shape (None, body) \<in>
      set (map block_shape (filter (\<lambda>blk. 10 < length (trim (snd blk))) (pattern_matches doc)))"
    by auto
  then have "block_shape (None, body) \<in> set (map shape (extractArtifacts now k doc))"
    by (simp only: extractArtifacts_shape)
  then obtain a where a: "a \<in> set (extractArtifacts now k doc)"
    and s: "shape a = block_shape (None, body)"
    by auto
  from s have "language (metadata a) = ''text'' \<and> artifact_type a = document \<and>
     title a = ''Text Code'' \<and> artifact_content a = trim body"
    by (simp add: shape_def block_shape_def block_language_def text_is_document capitalize_text)
  with a show ?thesis by blast
qed

text \<open>
  Claim C10, amended. In a plain text with fenced blocks, a block without a language tag is
  not skipped: when its trimmed content is longer than 10 characters, extraction yields an
  artifact with metadata language \<open>text\<close>, type \<open>document\<close>, title \<open>Text Code\<close> and the
  trimmed content of the block. In any text the same holds of every match of the pattern
  that has no tag.
\<close>

theorem untagged_block_extracted:
  "(plain segs \<and> Fenced [] body \<in> set segs \<and> 10 < length (trim body) \<longrightarrow>
      (\<exists>a \<in> set (extractArtifacts now k (render segs)).
         language (metadata a) = ''text'' \<and> artifact_type a = document \<and>
         title a = ''Text Code'' \<and> artifact_content a = trim body)) \<and>
   ((None, body) \<in> set (pattern_matches doc) \<and> 10 < length (trim body) \<longrightarrow>
      (\<exists>a \<in> set (extractArtifacts now k doc).
         language (metadata a) = ''text'' \<and> artifact_type a = document \<and>
         title a = ''Text Code'' \<and> artifact_content a = trim body))"
proof (intro conjI impI)
  assume a: "plain segs \<and> Fenced [] body \<in> set segs \<and> 10 < length (trim body)"
  then have "(None, body) \<in> set (pattern_matches (render segs))"
    by (simp add: pattern_matches_plain untagged_in_blocks)
  with a show "\<exists>a \<in> set (extractArtifacts now k (render segs)).
         language (metadata a) = ''text'' \<and> artifact_type a = document \<and>
         title a = ''Text Code'' \<and> artifact_content a = trim body"
    by (simp add: untagged_match_extracted)
next
  assume "(None, body) \<in> set (pattern_matches doc) \<and> 10 < length (trim body)"
  then show "\<exists>a \<in> set (extractArtifacts now k doc).
         language (metadata a) = ''text'' \<and> artifact_type a = document \<and>
         title a = ''Text Code'' \<and> artifact_content a = trim body"
    by (simp add: untagged_match_extracted)
qed

theorem untagged_block_extracted_witness:
  "plain [Prose ''Output:\<newline>'', Fenced [] ''no tag at all\<newline>'', Prose ''\<newline>Done.''] \<and>
   Fenced [] ''no tag at all\<newline>'' \<in>
     set [Prose ''Output:\<newline>'', Fenced [] ''no tag at all\<newline>'', Prose ''\<newline>Done.''] \<and>
   10 < length (trim ''no tag at all\<newline>'') \<and>
   (\<exists>a \<in> set (extractArtifacts (\<lambda>i. i) 0
        (render [Prose ''Output:\<newline>'', Fenced [] ''no tag at all\<newline>'', Prose ''\<newline>Done.''])).
     language (metadata a) = ''text'' \<and> artifact_type a = document \<and>
     title a = ''Text Code'' \<and> artifact_content a = trim ''no tag at all\<newline>'') \<and>
   (None, ''no tag at all\<newline>'') \<in> set (pattern_matches ''```\<newline>no tag at all\<newline>```'') \<and>
   (\<exists>a \<in> set (extractArtifacts (\<lambda>i. i) 0 ''```\<newline>no tag at all\<newline>```'').
     language (metadata a) = ''text'' \<and> artifact_type a = document \<and>
     title a = ''Text Code'' \<and> artifact_content a = trim ''no tag at all\<newline>'')"
proof -
  let ?segs = "[Prose ''Output:\<newline>'', Fenced [] ''no tag at all\<newline>'', Prose ''\<newline>Done.'']"
  have p: "plain ?segs"
    by code_simp
  have i: "Fenced [] ''no tag at all\<newline>'' \<in> set ?segs"
    by simp
  have l: "10 < length (trim ''no tag at all\<newline>'')"
    by code_simp
  have m: "(None, ''no tag at all\<newline>'') \<in> set (pattern_matches ''```\<newline>no tag at all\<newline>```'')"
    by code_simp
  note t = untagged_block_extracted [of ?segs "''no tag at all\<newline>''" "\<lambda>i. i" 0
      "''```\<newline>no tag at all\<newline>```''"]
  from t p i l have c1: "\<exists>a \<in> set (extractArtifacts (\<lambda>i. i) 0 (render ?segs)).
     language (metadata a) = ''text'' \<and> artifact_type a = document \<and>
     title a = ''Text Code'' \<and> artifact_content a = trim ''no tag at all\<newline>''"
    by blast
  from t m l have c2: "\<exists>a \<in> set (extractArtifacts (\<lambda>i. i) 0 ''```\<newline>no tag at all\<newline>```'').
     language (metadata a) = ''text'' \<and> artifact_type a = document \<and>
     title a = ''Text Code'' \<and> artifact_content a = trim ''no tag at all\<newline>''"
    by blast
  from p i l c1 m c2 show ?thesis by blast
qed

text \<open>
  The claim as stated speaks of every text. In the text that begins with a block tagged
  \<open>c++\<close>, the block without a tag has 27 characters of trimmed content, and no artifact has
  its content: the artifacts are the two lines of prose between the blocks.
\<close>

theorem untagged_block_extracted_counterexample:
  "Fenced [] ''usage: prog [options] files\<newline>'' \<in> set cpp_first \<and>
   trim ''usage: prog [options] files\<newline>'' = ''usage: prog [options] files'' \<and>
   10 < length (trim ''usage: prog [options] files\<newline>'') \<and>
   map artifact_content (extractArtifacts (\<lambda>i. i) 0 (render cpp_first)) =
     [''The same program in Python:'', ''and its output:'']"
  by code_simp


section \<open>Properties of the model-identifier translation\<close>

lemma mapModelToAnthropic_simps:
  "mapModelToAnthropic claude_3_5_sonnet_20241022 = claude_sonnet_4_5_20250929"
  "mapModelToAnthropic claude_3_5_haiku_20241022 = claude_haiku_4_5"
  "mapModelToAnthropic claude_3_opus_20240229 = claude_opus_4_20250514"
  "m \<notin> {claude_3_5_sonnet_20241022, claude_3_5_haiku_20241022, claude_3_opus_20240229} \<Longrightarrow>
     mapModelToAnthropic m = m"
  by (simp_all add: mapModelToAnthropic_def)

lemma mapModelToAzure_simps:
  "mapModelToAzure claude_sonnet_4_5_20250929 = claude_3_5_sonnet_20241022"
  "mapModelToAzure claude_haiku_4_5 = claude_3_5_haiku_20241022"
  "mapModelToAzure claude_opus_4_20250514 = claude_3_opus_20240229"
  "m \<notin> {claude_sonnet_4_5_20250929, claude_haiku_4_5, claude_opus_4_20250514} \<Longrightarrow>
     mapModelToAzure m = m"
  by (simp_all add: mapModelToAzure_def)

text \<open>
  Claim C7. The two translations invert each other on the three pairs of \<open>MODEL_MAPPING\<close>:
  the Azure identifier of a pair translates to its Anthropic identifier and back to itself,
  and the Anthropic identifier to the Azure one and back. A model identifier that is not
  the Azure identifier of a pair passes through \<open>mapModelToAnthropic\<close> unchanged, and one
  that is not the Anthropic identifier of a pair passes through \<open>mapModelToAzure\<close>
  unchanged; a model of neither kind passes through both.
\<close>

theorem model_mapping_bidirectional:
  "(\<forall>(family, az, an) \<in> set MODEL_MAPPING.
      mapModelToAnthropic az = an \<and> mapModelToAzure an = az \<and>
      mapModelToAzure (mapModelToAnthropic az) = az \<and>
      mapModelToAnthropic (mapModelToAzure an) = an) \<and>
   (\<forall>m. m \<notin> set (map (\<lambda>(family, az, an). az) MODEL_MAPPING) \<longrightarrow> mapModelToAnthropic m = m) \<and>
   (\<forall>m. m \<notin> set (map (\<lambda>(family, az, an). an) MODEL_MAPPING) \<longrightarrow> mapModelToAzure m = m)"
  by (simp add: MODEL_MAPPING_def mapModelToAnthropic_simps mapModelToAzure_simps)

theorem model_mapping_bidirectional_witness:
  "(''haiku'', claude_3_5_haiku_20241022, claude_haiku_4_5) \<in> set MODEL_MAPPING \<and>
   mapModelToAzure (mapModelToAnthropic claude_3_5_haiku_20241022) = claude_3_5_haiku_20241022 \<and>
   mapModelToAnthropic (mapModelToAzure claude_haiku_4_5) = claude_haiku_4_5 \<and>
   gpt_4o \<notin> set (map (\<lambda>(family, az, an). az) MODEL_MAPPING) \<and>
   gpt_4o \<notin> set (map (\<lambda>(family, az, an). an) MODEL_MAPPING) \<and>
   mapModelToAnthropic gpt_4o = gpt_4o \<and> mapModelToAzure gpt_4o = gpt_4o"
proof -
  have e: "(''haiku'', claude_3_5_haiku_20241022, claude_haiku_4_5) \<in> set MODEL_MAPPING"
    by (simp add: MODEL_MAPPING_def)
  have a: "gpt_4o \<notin> set (map (\<lambda>(family, az, an). az) MODEL_MAPPING)"
    by (simp add: MODEL_MAPPING_def)
  have b: "gpt_4o \<notin> set (map (\<lambda>(family, az, an). an) MODEL_MAPPING)"
    by (simp add: MODEL_MAPPING_def)
  note t = model_mapping_bidirectional
  from t e have 1:
    "mapModelToAzure (mapModelToAnthropic claude_3_5_haiku_20241022) = claude_3_5_haiku_20241022 \<and>
     mapModelToAnthropic (mapModelToAzure claude_haiku_4_5) = claude_haiku_4_5"
    by fastforce
  from t a have 2: "mapModelToAnthropic gpt_4o = gpt_4o" by blast
  from t b have 3: "mapModelToAzure gpt_4o = gpt_4o" by blast
  from e a b 1 2 3 show ?thesis by blast
qed

section \<open>Properties of the synthesis trigger\<close>

lemma js_rem_zero_iff:
  assumes "0 < a"
  shows "js_rem a b = Some 0 \<longleftrightarrow> a mod b = 0"
proof (cases "b = 0")
  case True
  with assms show ?thesis by (simp add: js_rem_def)
next
  case False
  have "\<bar>a\<bar> mod \<bar>b\<bar> = 0 \<longleftrightarrow> a mod b = 0"
    by (simp add: mod_eq_0_iff_dvd)
  with False assms show ?thesis by (simp add: js_rem_def)
qed

lemma slice_from_last_enough:
  "int (length xs) \<ge> interval \<Longrightarrow> \<not> int (length (slice_from xs (- interval))) < interval"
  by (auto simp: slice_from_def Let_def)

lemma createMiniSynthesis_count:
  assumes "int (length (previousStages ctx)) \<ge> synthesisInterval cfg"
  shows "synthesis_count (createMiniSynthesis cfg service mkInsight ctx) =
           (case service (slice_from (previousStages ctx) (- synthesisInterval cfg))
                         (insights_or_empty ctx) of
              Inl e \<Rightarrow> synthesis_count ctx
            | Inr r \<Rightarrow> synthesis_count ctx + 1)"
  using slice_from_last_enough [OF assms]
  by (simp add: createMiniSynthesis_def Let_def synthesis_count_def split: sum.splits)

text \<open>
  Claim C5, amended. After a stage is recorded, the synthesis counter goes up by one exactly
  when mini-synthesis is enabled, the stage was not a summary stage, the stage has status
  \<open>complete\<close>, the number of recorded stages is a multiple of \<open>synthesisInterval\<close> and at least
  \<open>synthesisInterval\<close>, and the synthesis service returns a report for the last stages; in
  every other case the counter is unchanged.
\<close>

theorem synthesis_trigger:
  "synthesis_count (executeStage_update cfg service mkInsight isSummary stage stageNumber ctx) =
     (if enableMiniSynthesis cfg \<and> \<not> isSummary \<and> stage_status stage = complete \<and>
         int (length (previousStages ctx) + 1) mod synthesisInterval cfg = 0 \<and>
         int (length (previousStages ctx) + 1) \<ge> synthesisInterval cfg \<and>
         (\<exists>report. service (slice_from (previousStages ctx @ [stage]) (- synthesisInterval cfg))
                            (insights_or_empty ctx) = Inr report)
      then synthesis_count ctx + 1
      else synthesis_count ctx)"
proof -
  let ?n = "int (length (previousStages ctx) + 1)"
  let ?ctx1 = "ctx \<lparr> previousStages := previousStages ctx @ [stage],
                      currentStage := stageNumber - 1 \<rparr>"
  have pos: "0 < ?n" by simp
  have rem: "js_rem ?n (synthesisInterval cfg) = Some 0 \<longleftrightarrow> ?n mod synthesisInterval cfg = 0"
    by (rule js_rem_zero_iff [OF pos])
  have c1: "synthesis_count ?ctx1 = synthesis_count ctx"
    by (simp add: synthesis_count_def)
  have i1: "insights_or_empty ?ctx1 = insights_or_empty ctx"
    by (simp add: insights_or_empty_def)
  show ?thesis
  proof (cases "enableMiniSynthesis cfg \<and> \<not> isSummary \<and> stage_status stage = complete \<and>
         ?n mod synthesisInterval cfg = 0 \<and> ?n \<ge> synthesisInterval cfg")
    case True
    then have ge: "int (length (previousStages ?ctx1)) \<ge> synthesisInterval cfg" by simp
    have "executeStage_update cfg service mkInsight isSummary stage stageNumber ctx =
            createMiniSynthesis cfg service mkInsight ?ctx1"
      using True rem by (simp add: executeStage_update_def Let_def)
    then show ?thesis
      using True createMiniSynthesis_count [OF ge, of service mkInsight] c1 i1
      by (auto split: sum.splits)
  next
    case False
    then have "executeStage_update cfg service mkInsight isSummary stage stageNumber ctx = ?ctx1"
      using rem by (auto simp: executeStage_update_def Let_def)
    with False c1 show ?thesis by auto
  qed
qed

text \<open>With synthesis enabled, the third stage of an interval of three is followed by a synthesis.\<close>

theorem synthesis_trigger_witness:
  "synthesis_count
     (executeStage_update \<lparr> enableMiniSynthesis = True, synthesisInterval = 3 \<rparr>
        example_service (\<lambda>report. ()) False \<lparr> stage_status = complete \<rparr> 3 example_context) = 1"
  using synthesis_trigger [of "\<lparr> enableMiniSynthesis = True, synthesisInterval = 3 \<rparr>"
      example_service "\<lambda>report. ()" False "\<lparr> stage_status = complete \<rparr>" 3 example_context]
  by (simp add: example_context_def example_service_def synthesis_count_def)

text \<open>
  The claim as stated makes the stage count and the summary flag decide alone. With
  \<open>enableMiniSynthesis\<close> off, the third stage of an interval of three is a positive multiple
  of the interval and not a summary stage, and no synthesis is generated.
\<close>

theorem synthesis_trigger_counterexample:
  "int (length (previousStages example_context) + 1) mod 3 = 0 \<and>
   int (length (previousStages example_context) + 1) \<ge> 3 \<and>
   synthesis_count example_context = 0 \<and>
   synthesis_count
     (executeStage_update \<lparr> enableMiniSynthesis = False, synthesisInterval = 3 \<rparr>
        example_service (\<lambda>report. ()) False \<lparr> stage_status = complete \<rparr> 3 example_context) = 0"
  by (simp add: example_context_def executeStage_update_def synthesis_count_def Let_def)

section \<open>Properties of the providers\<close>

subsection \<open>Provider calls leave the call list of the service alone\<close>








subsection \<open>Failover\<close>

lemma table_translation_code:
  "table_translation anthropic m = mapModelToAnthropic m"
  "table_translation azure m = mapModelToAzure m"
  by (cases m; simp add: table_translation_def MODEL_MAPPING_def mapModelToAnthropic_def
        mapModelToAzure_def)+





subsection \<open>What a provider call does to the world\<close>

















subsection \<open>Retry\<close>

lemma executeWithRetry_success:
  "operation w = (Inr r, w1) \<Longrightarrow> executeWithRetry operation attempt w = (Inr r, w1)"
  by (subst executeWithRetry.simps) simp

lemma executeWithRetry_not_retryable:
  "operation w = (Inl err, w1) \<Longrightarrow> \<not> isRetryableError err \<Longrightarrow>
   executeWithRetry operation attempt w = (Inl err, w1)"
  by (subst executeWithRetry.simps) simp

lemma executeWithRetry_exhausted:
  "operation w = (Inl err, w1) \<Longrightarrow> MAX_RETRIES \<le> attempt \<Longrightarrow>
   executeWithRetry operation attempt w = (Inl err, w1)"
  by (subst executeWithRetry.simps) simp

lemma executeWithRetry_again:
  "operation w = (Inl err, w1) \<Longrightarrow> isRetryableError err \<Longrightarrow> attempt < MAX_RETRIES \<Longrightarrow>
   executeWithRetry operation attempt w =
     executeWithRetry operation (attempt + 1)
       (w1 \<lparr> sleeps := sleeps w1 @ [RETRY_DELAY_MS * 2 ^ (attempt - 1)] \<rparr>)"
  by (subst executeWithRetry.simps) simp

text \<open>
  Claim C1, at the input where the source departs from it. The gateway answers every request
  with status 503, and the error made from it is retryable. A non-streaming request fails
  after a single request to the gateway, without any wait; a streaming request to the same
  gateway is sent three times, with waits of 2000 and 4000 milliseconds between the
  attempts, before the error reaches the caller.
\<close>

theorem nonstreaming_call_not_retried:
  "isRetryableError (Error ''Azure AI error: 503 - Service Unavailable'') \<and>
   Azure_execute env_unavailable ready_provider plain_request start =
     (Inl (Error ''Azure AI error: 503 - Service Unavailable''),
      \<lparr> fetches = 1, clock_reads = 1, sleeps = [], sdk_calls = 0, provider_calls = [] \<rparr>) \<and>
   Azure_execute env_unavailable ready_provider streaming_request start =
     (Inl (Error ''Azure AI error: 503 - Service Unavailable''),
      \<lparr> fetches = 3, clock_reads = 0, sleeps = [2000, 4000], sdk_calls = 0,
        provider_calls = [] \<rparr>)"
  by code_simp


subsection \<open>Failures of a provider call\<close>


















subsection \<open>Initialization\<close>

lemma Azure_initialize_fails_iff:
  "Azure_initialize cfg p = Inl (Error ''Azure AI endpoint and API key are required'') \<longleftrightarrow>
   endpoint cfg = [] \<or> apiKey cfg = []"
  by (simp add: Azure_initialize_def)

lemma Azure_initialize_succeeds:
  "endpoint cfg \<noteq> [] \<Longrightarrow> apiKey cfg \<noteq> [] \<Longrightarrow>
   \<exists>p'. Azure_initialize cfg p = Inr p' \<and> Azure_getInitializationStatus p'"
  by (simp add: Azure_initialize_def Azure_getInitializationStatus_def)

lemma AIService_initialize_succeeds:
  "\<exists>s'. AIService_initialize c s = Inr s' \<and> service_isInitialized s' \<and>
         activeProvider s' = cfg_provider c \<and> service_config s' = Some c"
  by (simp add: AIService_initialize_def Azure_initialize_def Let_def split: option.splits)

lemma AIService_initialize_azure:
  assumes "AIService_initialize c s = Inr s'"
  shows "cfg_azure c = Some a \<and> endpoint a \<noteq> [] \<and> apiKey a \<noteq> [] \<longrightarrow>
           Azure_initialize a (azureProvider s) = Inr (azureProvider s') \<and>
           Azure_getInitializationStatus (azureProvider s')"
    and "cfg_azure c = None \<or> (\<exists>a. cfg_azure c = Some a \<and> (endpoint a = [] \<or> apiKey a = [])) \<longrightarrow>
           azureProvider s' = azureProvider s"
  using assms
  by (auto simp add: AIService_initialize_def Azure_initialize_def Let_def
        Azure_getInitializationStatus_def split: option.splits if_splits)

lemma AIService_initialize_anthropic:
  assumes "AIService_initialize c s = Inr s'"
  shows "cfg_anthropic c = Some k \<and> anthropic_apiKey k \<noteq> [] \<longrightarrow> anthropicClient s' = Some k"
    and "cfg_anthropic c = None \<or> (\<exists>k. cfg_anthropic c = Some k \<and> anthropic_apiKey k = []) \<longrightarrow>
           anthropicClient s' = anthropicClient s"
  using assms
  by (auto simp add: AIService_initialize_def Azure_initialize_def Let_def
        split: option.splits if_splits)

lemma AIService_initialize_state:
  "\<exists>s'. AIService_initialize c s = Inr s' \<and> service_isInitialized s' \<and>
         activeProvider s' = cfg_provider c \<and>
         (\<forall>a. cfg_azure c = Some a \<and> endpoint a \<noteq> [] \<and> apiKey a \<noteq> [] \<longrightarrow>
              Azure_initialize a (azureProvider s) = Inr (azureProvider s') \<and>
              Azure_getInitializationStatus (azureProvider s')) \<and>
         (cfg_azure c = None \<or> (\<exists>a. cfg_azure c = Some a \<and> (endpoint a = [] \<or> apiKey a = [])) \<longrightarrow>
              azureProvider s' = azureProvider s) \<and>
         (\<forall>k. cfg_anthropic c = Some k \<and> anthropic_apiKey k \<noteq> [] \<longrightarrow>
              anthropicClient s' = Some k) \<and>
         (cfg_anthropic c = None \<or> (\<exists>k. cfg_anthropic c = Some k \<and> anthropic_apiKey k = []) \<longrightarrow>
              anthropicClient s' = anthropicClient s)"
proof -
  obtain s' where s': "AIService_initialize c s = Inr s'" "service_isInitialized s'"
      "activeProvider s' = cfg_provider c"
    using AIService_initialize_succeeds [of c s] by blast
  show ?thesis
    using s' AIService_initialize_azure [OF s'(1)] AIService_initialize_anthropic [OF s'(1)]
    by blast
qed

lemma nothing_set_up_execute:
  assumes "cfg_provider c = azure"
    and "cfg_azure c = None \<or> (\<exists>a. cfg_azure c = Some a \<and> (endpoint a = [] \<or> apiKey a = []))"
    and "cfg_anthropic c = None \<or> (\<exists>k. cfg_anthropic c = Some k \<and> anthropic_apiKey k = [])"
    and "config (azureProvider s) = None" and "anthropicClient s = None"
    and "AIService_initialize c s = Inr s'"
  shows "fst (AIService_execute env s' options w) = Inl (Error ''Azure AI provider not initialized'')"
proof -
  obtain s2 where "AIService_initialize c s = Inr s2" "service_isInitialized s2"
      "activeProvider s2 = cfg_provider c"
    using AIService_initialize_succeeds [of c s] by blast
  with assms have i: "service_isInitialized s'" and a: "activeProvider s' = azure" by simp_all
  from AIService_initialize_azure(2) [OF assms(6)] assms(2,4)
  have z: "config (azureProvider s') = None" by simp
  from AIService_initialize_anthropic(2) [OF assms(6)] assms(3,5)
  have k: "anthropicClient s' = None" by simp
  show ?thesis
    by (simp add: i a z k AIService_execute_def executeWithAzure_def Azure_execute_def Let_def)
qed

lemma anthropic_key_execute:
  assumes "cfg_provider c = azure"
    and "cfg_azure c = None \<or> (\<exists>a. cfg_azure c = Some a \<and> (endpoint a = [] \<or> apiKey a = []))"
    and "cfg_anthropic c = Some k" and "anthropic_apiKey k \<noteq> []"
    and "config (azureProvider s) = None"
    and "AIService_initialize c s = Inr s'"
  shows "fst (AIService_execute env s' options w) =
           (case anthropic_sdk env (sdk_calls w)
                   (table_translation anthropic (requested_model options))
                   (opt_stream options = Some True) of
              Inl e \<Rightarrow> Inl (Error ''Azure AI provider not initialized'')
            | Inr r \<Rightarrow> Inr r)"
proof -
  obtain s2 where "AIService_initialize c s = Inr s2" "service_isInitialized s2"
      "activeProvider s2 = cfg_provider c"
    using AIService_initialize_succeeds [of c s] by blast
  with assms have i: "service_isInitialized s'" and a: "activeProvider s' = azure" by simp_all
  from AIService_initialize_azure(2) [OF assms(6)] assms(2,5)
  have z: "config (azureProvider s') = None" by simp
  from AIService_initialize_anthropic(1) [OF assms(6), of k] assms(3,4)
  have k: "anthropicClient s' = Some k" by simp
  have b: "(case opt_stream options of None \<Rightarrow> False | Some b \<Rightarrow> b) = (opt_stream options = Some True)"
    by (cases "opt_stream options") auto
  show ?thesis
    by (simp add: i a z k b AIService_execute_def executeWithAzure_def Azure_execute_def Let_def
          executeWithAnthropic_def table_translation_code requested_model_def
          split: sum.splits)
qed

text \<open>
  Claim C9, amended. \<open>AzureAIProvider.initialize\<close> raises its error exactly when the
  endpoint or the API key is missing, and otherwise leaves the provider initialized; it
  does not look at the form of the endpoint. \<open>AIService.initialize\<close> raises no error and
  leaves the service initialized with the provider the configuration names; it initializes
  the Azure provider, by \<open>AzureAIProvider.initialize\<close>, when the endpoint and the API key
  are both given, and leaves it as it was otherwise; it creates the Anthropic client when a
  key is given, and leaves it as it was otherwise. When the configuration names Azure and
  gives neither Azure credentials nor an Anthropic key, and neither provider was set up
  before, each later request fails with the error that the Azure provider is not
  initialized. When it gives an Anthropic key instead, each later request is answered by
  the Anthropic SDK, with the model translated by the mapping table, and fails with that
  error only when the SDK fails.
\<close>

theorem initialization_checks:
  "(Azure_initialize cfg p = Inl (Error ''Azure AI endpoint and API key are required'') \<longleftrightarrow>
      endpoint cfg = [] \<or> apiKey cfg = []) \<and>
   (endpoint cfg \<noteq> [] \<and> apiKey cfg \<noteq> [] \<longrightarrow>
      (\<exists>p'. Azure_initialize cfg p = Inr p' \<and> Azure_getInitializationStatus p')) \<and>
   (\<exists>s'. AIService_initialize c s = Inr s' \<and> service_isInitialized s' \<and>
          activeProvider s' = cfg_provider c \<and>
          (\<forall>a. cfg_azure c = Some a \<and> endpoint a \<noteq> [] \<and> apiKey a \<noteq> [] \<longrightarrow>
               Azure_initialize a (azureProvider s) = Inr (azureProvider s') \<and>
               Azure_getInitializationStatus (azureProvider s')) \<and>
          (cfg_azure c = None \<or> (\<exists>a. cfg_azure c = Some a \<and> (endpoint a = [] \<or> apiKey a = [])) \<longrightarrow>
               azureProvider s' = azureProvider s) \<and>
          (\<forall>k. cfg_anthropic c = Some k \<and> anthropic_apiKey k \<noteq> [] \<longrightarrow>
               anthropicClient s' = Some k) \<and>
          (cfg_anthropic c = None \<or> (\<exists>k. cfg_anthropic c = Some k \<and> anthropic_apiKey k = []) \<longrightarrow>
               anthropicClient s' = anthropicClient s)) \<and>
   (cfg_provider c = azure \<and>
    (cfg_azure c = None \<or> (\<exists>a. cfg_azure c = Some a \<and> (endpoint a = [] \<or> apiKey a = []))) \<and>
    (cfg_anthropic c = None \<or> (\<exists>k. cfg_anthropic c = Some k \<and> anthropic_apiKey k = [])) \<and>
    config (azureProvider s) = None \<and> anthropicClient s = None \<and>
    AIService_initialize c s = Inr s1 \<longrightarrow>
      fst (AIService_execute env s1 options w) =
        Inl (Error ''Azure AI provider not initialized'')) \<and>
   (cfg_provider c = azure \<and>
    (cfg_azure c = None \<or> (\<exists>a. cfg_azure c = Some a \<and> (endpoint a = [] \<or> apiKey a = []))) \<and>
    cfg_anthropic c = Some key \<and> anthropic_apiKey key \<noteq> [] \<and>
    config (azureProvider s) = None \<and>
    AIService_initialize c s = Inr s1 \<longrightarrow>
      fst (AIService_execute env s1 options w) =
        (case anthropic_sdk env (sdk_calls w)
                (table_translation anthropic (requested_model options))
                (opt_stream options = Some True) of
           Inl e \<Rightarrow> Inl (Error ''Azure AI provider not initialized'')
         | Inr r \<Rightarrow> Inr r))"
proof (intro conjI)
  show "(Azure_initialize cfg p = Inl (Error ''Azure AI endpoint and API key are required'')) =
          (endpoint cfg = [] \<or> apiKey cfg = [])"
    by (rule Azure_initialize_fails_iff)
  show "endpoint cfg \<noteq> [] \<and> apiKey cfg \<noteq> [] \<longrightarrow>
          (\<exists>p'. Azure_initialize cfg p = Inr p' \<and> Azure_getInitializationStatus p')"
    using Azure_initialize_succeeds [of cfg p] by blast
  show "\<exists>s'. AIService_initialize c s = Inr s' \<and> service_isInitialized s' \<and>
          activeProvider s' = cfg_provider c \<and>
          (\<forall>a. cfg_azure c = Some a \<and> endpoint a \<noteq> [] \<and> apiKey a \<noteq> [] \<longrightarrow>
               Azure_initialize a (azureProvider s) = Inr (azureProvider s') \<and>
               Azure_getInitializationStatus (azureProvider s')) \<and>
          (cfg_azure c = None \<or> (\<exists>a. cfg_azure c = Some a \<and> (endpoint a = [] \<or> apiKey a = [])) \<longrightarrow>
               azureProvider s' = azureProvider s) \<and>
          (\<forall>k. cfg_anthropic c = Some k \<and> anthropic_apiKey k \<noteq> [] \<longrightarrow>
               anthropicClient s' = Some k) \<and>
          (cfg_anthropic c = None \<or> (\<exists>k. cfg_anthropic c = Some k \<and> anthropic_apiKey k = []) \<longrightarrow>
               anthropicClient s' = anthropicClient s)"
    by (rule AIService_initialize_state)
  show "cfg_provider c = azure \<and>
    (cfg_azure c = None \<or> (\<exists>a. cfg_azure c = Some a \<and> (endpoint a = [] \<or> apiKey a = []))) \<and>
    (cfg_anthropic c = None \<or> (\<exists>k. cfg_anthropic c = Some k \<and> anthropic_apiKey k = [])) \<and>
    config (azureProvider s) = None \<and> anthropicClient s = None \<and>
    AIService_initialize c s = Inr s1 \<longrightarrow>
      fst (AIService_execute env s1 options w) =
        Inl (Error ''Azure AI provider not initialized'')"
    using nothing_set_up_execute [of c s s1 env options w] by blast
  show "cfg_provider c = azure \<and>
    (cfg_azure c = None \<or> (\<exists>a. cfg_azure c = Some a \<and> (endpoint a = [] \<or> apiKey a = []))) \<and>
    cfg_anthropic c = Some key \<and> anthropic_apiKey key \<noteq> [] \<and>
    config (azureProvider s) = None \<and>
    AIService_initialize c s = Inr s1 \<longrightarrow>
      fst (AIService_execute env s1 options w) =
        (case anthropic_sdk env (sdk_calls w)
                (table_translation anthropic (requested_model options))
                (opt_stream options = Some True) of
           Inl e \<Rightarrow> Inl (Error ''Azure AI provider not initialized'')
         | Inr r \<Rightarrow> Inr r)"
    using anthropic_key_execute [of c key s s1 env options w] by blast
qed

theorem initialization_checks_witness:
  "Azure_initialize
     \<lparr> endpoint = ''https://models.inference.ai.azure.com'', apiKey = [], deploymentName = None,
       apiVersion = None \<rparr> new_AzureAIProvider =
     Inl (Error ''Azure AI endpoint and API key are required'') \<and>
   (\<exists>p'. Azure_initialize
            \<lparr> endpoint = ''https://models.inference.ai.azure.com'', apiKey = ''key'',
              deploymentName = None, apiVersion = None \<rparr> new_AzureAIProvider = Inr p' \<and>
          Azure_getInitializationStatus p') \<and>
   AIService_initialize both_config new_AIService = Inr both_service \<and>
   Azure_initialize
     \<lparr> endpoint = ''https://models.inference.ai.azure.com/'', apiKey = ''key'',
       deploymentName = None, apiVersion = None \<rparr> (azureProvider new_AIService) =
     Inr (azureProvider both_service) \<and>
   Azure_getInitializationStatus (azureProvider both_service) \<and>
   anthropicClient both_service = Some \<lparr> anthropic_apiKey = ''sk-ant-key'' \<rparr> \<and>
   AIService_initialize no_credentials new_AIService = Inr no_credentials_service \<and>
   azureProvider no_credentials_service = azureProvider new_AIService \<and>
   anthropicClient no_credentials_service = anthropicClient new_AIService \<and>
   fst (AIService_execute env_unavailable no_credentials_service plain_request start) =
     Inl (Error ''Azure AI provider not initialized'') \<and>
   AIService_initialize anthropic_key_only new_AIService = Inr anthropic_key_only_service \<and>
   fst (AIService_execute env_failover anthropic_key_only_service plain_request start) =
     Inr (answer \<lparr> model := claude_sonnet_4_5_20250929 \<rparr>) \<and>
   fst (AIService_execute env_unavailable anthropic_key_only_service plain_request start) =
     Inl (Error ''Azure AI provider not initialized'')"
proof -
  have ib: "AIService_initialize both_config new_AIService = Inr both_service"
    by code_simp
  have i: "AIService_initialize no_credentials new_AIService = Inr no_credentials_service"
    by code_simp
  have ik: "AIService_initialize anthropic_key_only new_AIService = Inr anthropic_key_only_service"
    by code_simp
  have n: "cfg_azure no_credentials = None" "cfg_anthropic no_credentials = None"
      "cfg_provider no_credentials = azure"
    by (simp_all add: no_credentials_def)
  have k: "cfg_azure anthropic_key_only = None"
      "cfg_anthropic anthropic_key_only = Some \<lparr> anthropic_apiKey = ''sk-ant-key'' \<rparr>"
      "cfg_provider anthropic_key_only = azure"
    by (simp_all add: anthropic_key_only_def)
  have cb: "cfg_azure both_config =
              Some \<lparr> endpoint = ''https://models.inference.ai.azure.com/'', apiKey = ''key'',
                     deploymentName = None, apiVersion = None \<rparr>"
      "cfg_anthropic both_config = Some \<lparr> anthropic_apiKey = ''sk-ant-key'' \<rparr>"
    by (simp_all add: both_config_def)
  have e: "config (azureProvider new_AIService) = None" "anthropicClient new_AIService = None"
    by (simp_all add: new_AIService_def new_AzureAIProvider_def)
  have sdk1: "anthropic_sdk env_failover (sdk_calls start)
                (table_translation anthropic (requested_model plain_request))
                (opt_stream plain_request = Some True) =
              Inr (answer \<lparr> model := claude_sonnet_4_5_20250929 \<rparr>)"
    by code_simp
  have sdk2: "anthropic_sdk env_unavailable (sdk_calls start)
                (table_translation anthropic (requested_model plain_request))
                (opt_stream plain_request = Some True) = Inl (Error ''Connection error.'')"
    by code_simp
  from initialization_checks [of
      "\<lparr> endpoint = ''https://models.inference.ai.azure.com'', apiKey = [], deploymentName = None,
         apiVersion = None \<rparr>" new_AzureAIProvider]
  have a: "Azure_initialize
     \<lparr> endpoint = ''https://models.inference.ai.azure.com'', apiKey = [], deploymentName = None,
       apiVersion = None \<rparr> new_AzureAIProvider =
     Inl (Error ''Azure AI endpoint and API key are required'')"
    by simp
  from initialization_checks [of
      "\<lparr> endpoint = ''https://models.inference.ai.azure.com'', apiKey = ''key'',
         deploymentName = None, apiVersion = None \<rparr>" new_AzureAIProvider]
  have b: "\<exists>p'. Azure_initialize
            \<lparr> endpoint = ''https://models.inference.ai.azure.com'', apiKey = ''key'',
              deploymentName = None, apiVersion = None \<rparr> new_AzureAIProvider = Inr p' \<and>
          Azure_getInitializationStatus p'"
    by simp
  from initialization_checks [of _ _ both_config new_AIService] ib cb
  have s: "Azure_initialize
     \<lparr> endpoint = ''https://models.inference.ai.azure.com/'', apiKey = ''key'',
       deploymentName = None, apiVersion = None \<rparr> (azureProvider new_AIService) =
     Inr (azureProvider both_service) \<and>
   Azure_getInitializationStatus (azureProvider both_service) \<and>
   anthropicClient both_service = Some \<lparr> anthropic_apiKey = ''sk-ant-key'' \<rparr>"
    by auto
  from initialization_checks [of _ _ no_credentials new_AIService no_credentials_service
      env_unavailable plain_request start] i n e
  have c: "azureProvider no_credentials_service = azureProvider new_AIService \<and>
     anthropicClient no_credentials_service = anthropicClient new_AIService \<and>
     fst (AIService_execute env_unavailable no_credentials_service plain_request start) =
     Inl (Error ''Azure AI provider not initialized'')"
    by auto
  from initialization_checks [of _ _ anthropic_key_only new_AIService anthropic_key_only_service
      env_failover plain_request start "\<lparr> anthropic_apiKey = ''sk-ant-key'' \<rparr>"] ik k e sdk1
  have d1: "fst (AIService_execute env_failover anthropic_key_only_service plain_request start) =
     Inr (answer \<lparr> model := claude_sonnet_4_5_20250929 \<rparr>)"
    by simp
  from initialization_checks [of _ _ anthropic_key_only new_AIService anthropic_key_only_service
      env_unavailable plain_request start "\<lparr> anthropic_apiKey = ''sk-ant-key'' \<rparr>"] ik k e sdk2
  have d2: "fst (AIService_execute env_unavailable anthropic_key_only_service plain_request start) =
     Inl (Error ''Azure AI provider not initialized'')"
    by simp
  from a b ib s i c ik d1 d2 show ?thesis by blast
qed

text \<open>
  The claim as stated makes initialization fail on a missing credential or an invalid
  endpoint. Initializing the service without any credentials succeeds, and the first
  request fails; initializing the Azure provider with an endpoint that is not a URL
  succeeds as well.
\<close>

theorem initialization_counterexample:
  "AIService_initialize no_credentials new_AIService = Inr no_credentials_service \<and>
   AIService_execute env_unavailable no_credentials_service plain_request start =
     (Inl (Error ''Azure AI provider not initialized''),
      \<lparr> fetches = 0, clock_reads = 0, sleeps = [], sdk_calls = 0,
        provider_calls = [(azure, Some claude_3_5_sonnet_20241022)] \<rparr>) \<and>
   Azure_initialize
     \<lparr> endpoint = ''not a url'', apiKey = ''key'', deploymentName = None, apiVersion = None \<rparr>
     new_AzureAIProvider =
     Inr \<lparr> config = Some \<lparr> endpoint = ''not a url'', apiKey = ''key'', deploymentName = None,
                           apiVersion = Some ''2024-05-01-preview'' \<rparr>,
           isInitialized = True \<rparr>"
  by code_simp

end
